theory Spec2Isabelle
  imports Main
begin

section \<open>Data model\<close>

text \<open>
  The embedding follows \<^verbatim>\<open>player.py\<close>. Python objects are records, the instance
  methods take the object they mutate and give the updated object back, and every
  exception the interpreter raises is a value of \<open>py_error\<close>. Field names are the
  source's; where two classes share a field name it is written qualified
  (\<open>Solution.room\<close>, \<open>Player.room\<close>).
\<close>

datatype py_error =
    AttributeError
  | KeyError
  | IndexError
  | TypeError
  | NameError
  | Exception string

text \<open>
  A method that mutates its object and may raise: \<open>Done s\<close> is a normal return
  leaving the object as \<open>s\<close>; \<open>Raised e s\<close> is the exception \<open>e\<close> leaving the
  object as \<open>s\<close>, the mutations made before the raise included.
\<close>

datatype 's outcome = Done 's | Raised py_error 's

fun outcome_state :: "'s outcome \<Rightarrow> 's" where
  "outcome_state (Done s) = s"
| "outcome_state (Raised e s) = s"

fun and_then :: "'s outcome \<Rightarrow> ('s \<Rightarrow> 's outcome) \<Rightarrow> 's outcome" where
  "and_then (Done s) f = f s"
| "and_then (Raised e s) f = Raised e s"

datatype PlayerAction = ACCUSATION | GUESS | MOVE

subsection \<open>Cards, solutions and the deck (module \<^verbatim>\<open>definitions\<close>)\<close>

datatype CardType = WEAPON | ROOM | CHARACTER

text \<open>
  Modelled from the spec: the classes \<^verbatim>\<open>Card\<close>, \<^verbatim>\<open>Solution\<close> and \<^verbatim>\<open>Deck\<close> and the
  enumerations \<^verbatim>\<open>Weapon\<close>, \<^verbatim>\<open>Character\<close> and \<^verbatim>\<open>Room\<close> come from the module
  \<^verbatim>\<open>definitions\<close>. A card is a category and a value of that category's
  enumeration, and two cards with the same category and value are equal. The source
  reads the member's integer as \<^verbatim>\<open>card.value.value\<close> and indexes an array of the
  category's size with it minus one, so a member is modelled by that integer:
  1 to 6 for weapons and characters, 1 to 9 for rooms.
\<close>

type_synonym Weapon = int
type_synonym Character = int
type_synonym Room = int

datatype Card = Card (card_value: int) (card_type: CardType)

text \<open>
  Modelled from the spec: a \<^verbatim>\<open>Solution\<close> is a triple of slots, each unset
  (\<^verbatim>\<open>None\<close>) or holding a card; it is complete when all three slots are set and
  empty when none is.
\<close>

record Solution =
  weapon :: "Card option"
  character :: "Card option"
  room :: "Card option"

definition is_complete :: "Solution \<Rightarrow> bool" where
  "is_complete s =
     (Solution.weapon s \<noteq> None \<and> Solution.character s \<noteq> None \<and> Solution.room s \<noteq> None)"

definition is_empty :: "Solution \<Rightarrow> bool" where
  "is_empty s =
     (Solution.weapon s = None \<and> Solution.character s = None \<and> Solution.room s = None)"

text \<open>
  Modelled from the spec: \<^verbatim>\<open>Deck.static_deck\<close> is the full deck, the union of the
  6 weapon cards, the 6 character cards and the 9 room cards.
\<close>

definition static_deck :: "Card list" where
  "static_deck =
     map (\<lambda>v. Card v WEAPON) [1, 2, 3, 4, 5, 6] @
     map (\<lambda>v. Card v CHARACTER) [1, 2, 3, 4, 5, 6] @
     map (\<lambda>v. Card v ROOM) [1, 2, 3, 4, 5, 6, 7, 8, 9]"

subsection \<open>Python containers\<close>

text \<open>
  A \<^verbatim>\<open>dict\<close> is an association list in insertion order with one entry per key:
  assigning to a key that is present replaces its value in place, assigning to a new
  key appends an entry, and reading a missing key raises \<^verbatim>\<open>KeyError\<close>.
\<close>

fun dict_set :: "('k \<times> 'v) list \<Rightarrow> 'k \<Rightarrow> 'v \<Rightarrow> ('k \<times> 'v) list" where
  "dict_set [] k v = [(k, v)]"
| "dict_set ((k', v') # kvs) k v =
     (if k' = k then (k, v) # kvs else (k', v') # dict_set kvs k v)"

fun dict_lookup :: "('k \<times> 'v) list \<Rightarrow> 'k \<Rightarrow> 'v option" where
  "dict_lookup [] k = None"
| "dict_lookup ((k', v') # kvs) k = (if k' = k then Some v' else dict_lookup kvs k)"

text \<open>
  \<^verbatim>\<open>d[key]\<close> where \<^verbatim>\<open>key\<close> may be \<^verbatim>\<open>None\<close>: the keys are cards, so \<^verbatim>\<open>None\<close> is
  never among them.
\<close>

definition dict_getitem :: "(Card \<times> 'v) list \<Rightarrow> Card option \<Rightarrow> py_error + 'v" where
  "dict_getitem d key =
     (case key of
        None \<Rightarrow> Inl KeyError
      | Some k \<Rightarrow> (case dict_lookup d k of None \<Rightarrow> Inl KeyError | Some v \<Rightarrow> Inr v))"

text \<open>
  \<^verbatim>\<open>a[i] = v\<close> on a one-dimensional numpy array: a negative index counts from the
  end, an index out of range raises \<^verbatim>\<open>IndexError\<close>. The arrays of the source only
  ever hold 0 and 1, so the elements are integers.
\<close>

definition np_setitem :: "int list \<Rightarrow> int \<Rightarrow> int \<Rightarrow> py_error + int list" where
  "np_setitem a i v =
     (let n = int (length a); j = (if i < 0 then n + i else i)
      in if 0 \<le> j \<and> j < n then Inr (a[nat j := v]) else Inl IndexError)"

text \<open>
  The slices \<^verbatim>\<open>xs[:k]\<close> and \<^verbatim>\<open>xs[k:]\<close>: a negative \<^verbatim>\<open>k\<close> counts from the end and
  is clipped at the start of the list.
\<close>

definition slice_to :: "'a list \<Rightarrow> int \<Rightarrow> 'a list" where
  "slice_to xs k =
     (if k < 0 then take (nat (int (length xs) + k)) xs else take (nat k) xs)"

definition slice_from :: "'a list \<Rightarrow> int \<Rightarrow> 'a list" where
  "slice_from xs k =
     (if k < 0 then drop (nat (int (length xs) + k)) xs else drop (nat k) xs)"

text \<open>
  \<^verbatim>\<open>random.choice(seq)\<close>: raises \<^verbatim>\<open>IndexError\<close> on an empty sequence and otherwise
  returns the element at a random index, here drawn as \<open>rnd\<close>.
\<close>

definition random_choice :: "nat \<Rightarrow> 'a list \<Rightarrow> py_error + 'a" where
  "random_choice rnd xs =
     (if xs = [] then Inl IndexError else Inr (xs ! (rnd mod length xs)))"

section \<open>Hand\<close>

record Hand =
  all :: "Card list"
  weapons :: "Card list"
  rooms :: "Card list"
  characters :: "Card list"

definition Hand_init :: Hand where
  "Hand_init = \<lparr>all = [], weapons = [], rooms = [], characters = []\<rparr>"

definition add :: "Card \<Rightarrow> Hand \<Rightarrow> Hand" where
  "add c h =
     (let h1 = h\<lparr>Hand.all := Hand.all h @ [c]\<rparr>
      in case card_type c of
           WEAPON \<Rightarrow> h1\<lparr>Hand.weapons := Hand.weapons h1 @ [c]\<rparr>
         | ROOM \<Rightarrow> h1\<lparr>Hand.rooms := Hand.rooms h1 @ [c]\<rparr>
         | CHARACTER \<Rightarrow> h1\<lparr>Hand.characters := Hand.characters h1 @ [c]\<rparr>)"

text \<open>
  \<^verbatim>\<open>has_card\<close> reads \<^verbatim>\<open>card.type\<close> first, so a \<^verbatim>\<open>None\<close> argument raises
  \<^verbatim>\<open>AttributeError\<close>, which the handler for \<^verbatim>\<open>ValueError\<close> does not catch.
  \<^verbatim>\<open>list.index\<close> raises \<^verbatim>\<open>ValueError\<close> exactly when the card is not in the list.
\<close>

definition has_card :: "Hand \<Rightarrow> Card option \<Rightarrow> py_error + bool" where
  "has_card h c_opt =
     (case c_opt of
        None \<Rightarrow> Inl AttributeError
      | Some c \<Rightarrow>
          (case card_type c of
             WEAPON \<Rightarrow> Inr (c \<in> set (Hand.weapons h))
           | ROOM \<Rightarrow> Inr (c \<in> set (Hand.rooms h))
           | CHARACTER \<Rightarrow> Inr (c \<in> set (Hand.characters h))))"

section \<open>SolutionMatcher\<close>

definition compare_to_hand :: "Hand \<Rightarrow> Solution \<Rightarrow> py_error + Solution" where
  "compare_to_hand hand solution =
     (let matches = \<lparr>weapon = None, character = None, room = None\<rparr>
      in case has_card hand (Solution.weapon solution) of
           Inl e \<Rightarrow> Inl e
         | Inr hw \<Rightarrow>
             (let matches = (if hw then matches\<lparr>Solution.weapon := Solution.weapon solution\<rparr>
                             else matches)
              in case has_card hand (Solution.room solution) of
                   Inl e \<Rightarrow> Inl e
                 | Inr hr \<Rightarrow>
                     (let matches = (if hr then matches\<lparr>Solution.room := Solution.room solution\<rparr>
                                     else matches)
                      in case has_card hand (Solution.character solution) of
                           Inl e \<Rightarrow> Inl e
                         | Inr hc \<Rightarrow>
                             Inr (if hc
                                  then matches\<lparr>Solution.character := Solution.character solution\<rparr>
                                  else matches))))"

section \<open>LogBook\<close>

text \<open>
  \<open>log_book\<close> is the dictionary from cards to the flag "known not to be the
  secret"; \<open>weapons\<close>, \<open>characters\<close> and \<open>rooms\<close> are the numpy arrays kept beside
  it; \<open>solution\<close> is the deduced solution.
\<close>

record LogBook =
  log_book :: "(Card \<times> bool) list"
  weapons :: "int list"
  characters :: "int list"
  rooms :: "int list"
  solution :: Solution

definition LogBook_init :: LogBook where
  "LogBook_init =
     \<lparr>log_book = foldl (\<lambda>d c. dict_set d c False) [] static_deck,
      weapons = replicate 6 0,
      characters = replicate 6 0,
      rooms = replicate 9 0,
      solution = \<lparr>weapon = None, character = None, room = None\<rparr>\<rparr>"

definition get :: "LogBook \<Rightarrow> CardType \<Rightarrow> bool \<Rightarrow> Card list" where
  "get lb ctype known =
     map fst (filter (\<lambda>entry. card_type (fst entry) = ctype \<and> snd entry = known)
                     (LogBook.log_book lb))"

text \<open>
  \<^verbatim>\<open>find_solution\<close>: the three \<^verbatim>\<open>if\<close> statements run one after the other, each on
  the object as the one before left it.
\<close>

definition find_solution :: "CardType \<Rightarrow> LogBook \<Rightarrow> LogBook" where
  "find_solution ctype lb =
     (if is_complete (LogBook.solution lb) then lb
      else
        let lb1 =
              (if ctype = CHARACTER \<and> Solution.character (LogBook.solution lb) = None
               then (let remaining = get lb CHARACTER False
                     in if length remaining = 1
                        then lb\<lparr>LogBook.solution :=
                                (LogBook.solution lb)\<lparr>Solution.character := Some (remaining ! 0)\<rparr>\<rparr>
                        else lb)
               else lb);
            lb2 =
              (if ctype = ROOM \<and> Solution.room (LogBook.solution lb1) = None
               then (let remaining = get lb1 ROOM False
                     in if length remaining = 1
                        then lb1\<lparr>LogBook.solution :=
                                 (LogBook.solution lb1)\<lparr>Solution.room := Some (remaining ! 0)\<rparr>\<rparr>
                        else lb1)
               else lb1)
        in (if ctype = WEAPON \<and> Solution.weapon (LogBook.solution lb2) = None
            then (let remaining = get lb2 WEAPON False
                  in if length remaining = 1
                     then lb2\<lparr>LogBook.solution :=
                              (LogBook.solution lb2)\<lparr>Solution.weapon := Some (remaining ! 0)\<rparr>\<rparr>
                     else lb2)
            else lb2))"

text \<open>
  \<^verbatim>\<open>log\<close>: the dictionary entry is written and \<^verbatim>\<open>find_solution\<close> has run before
  the array is indexed, so an \<^verbatim>\<open>IndexError\<close> there leaves both in place.
\<close>

definition log :: "Card option \<Rightarrow> LogBook \<Rightarrow> LogBook outcome" where
  "log c_opt lb =
     (case c_opt of
        None \<Rightarrow> Done lb
      | Some c \<Rightarrow>
          (let lb1 = lb\<lparr>LogBook.log_book := dict_set (LogBook.log_book lb) c True\<rparr>;
               lb2 = find_solution (card_type c) lb1;
               index = card_value c - 1
           in case card_type c of
                WEAPON \<Rightarrow>
                  (case np_setitem (LogBook.weapons lb2) index 1 of
                     Inl e \<Rightarrow> Raised e lb2
                   | Inr a \<Rightarrow> Done (lb2\<lparr>LogBook.weapons := a\<rparr>))
              | CHARACTER \<Rightarrow>
                  (case np_setitem (LogBook.characters lb2) index 1 of
                     Inl e \<Rightarrow> Raised e lb2
                   | Inr a \<Rightarrow> Done (lb2\<lparr>LogBook.characters := a\<rparr>))
              | ROOM \<Rightarrow>
                  (case np_setitem (LogBook.rooms lb2) index 1 of
                     Inl e \<Rightarrow> Raised e lb2
                   | Inr a \<Rightarrow> Done (lb2\<lparr>LogBook.rooms := a\<rparr>))))"

definition has_solution :: "LogBook \<Rightarrow> bool" where
  "has_solution lb = is_complete (LogBook.solution lb)"

definition is_room_known :: "LogBook \<Rightarrow> Room \<Rightarrow> py_error + bool" where
  "is_room_known lb r = dict_getitem (LogBook.log_book lb) (Some (Card r ROOM))"

text \<open>
  \<^verbatim>\<open>found_solution\<close> is three \<^verbatim>\<open>if\<close> statements in a row (lines 141 to 144, 146 to
  149 and 151 to 154), one definition each. The guard reads the dictionary only when
  the LogBook's own slot is unset (\<^verbatim>\<open>and\<close> short-circuits). All three index their
  array with the candidate's \<^emph>\<open>character\<close>, and the third replaces \<open>rooms\<close> by an
  array of 6 elements, as the source does.
\<close>

definition found_solution_character :: "Solution \<Rightarrow> LogBook \<Rightarrow> LogBook outcome" where
  "found_solution_character cand lb =
     (if Solution.character (LogBook.solution lb) \<noteq> None then Done lb
      else case dict_getitem (LogBook.log_book lb) (Solution.character cand) of
             Inl e \<Rightarrow> Raised e lb
           | Inr True \<Rightarrow> Done lb
           | Inr False \<Rightarrow>
               (let lb1 = lb\<lparr>LogBook.solution :=
                              (LogBook.solution lb)\<lparr>Solution.character := Solution.character cand\<rparr>\<rparr>;
                    lb2 = lb1\<lparr>LogBook.characters := replicate 6 1\<rparr>
                in case Solution.character cand of
                     None \<Rightarrow> Raised AttributeError lb2
                   | Some ch \<Rightarrow>
                       (case np_setitem (LogBook.characters lb2) (card_value ch - 1) 0 of
                          Inl e \<Rightarrow> Raised e lb2
                        | Inr a \<Rightarrow> Done (lb2\<lparr>LogBook.characters := a\<rparr>))))"

definition found_solution_weapon :: "Solution \<Rightarrow> LogBook \<Rightarrow> LogBook outcome" where
  "found_solution_weapon cand lb =
     (if Solution.weapon (LogBook.solution lb) \<noteq> None then Done lb
      else case dict_getitem (LogBook.log_book lb) (Solution.weapon cand) of
             Inl e \<Rightarrow> Raised e lb
           | Inr True \<Rightarrow> Done lb
           | Inr False \<Rightarrow>
               (let lb1 = lb\<lparr>LogBook.solution :=
                              (LogBook.solution lb)\<lparr>Solution.weapon := Solution.weapon cand\<rparr>\<rparr>;
                    lb2 = lb1\<lparr>LogBook.weapons := replicate 6 1\<rparr>
                in case Solution.character cand of
                     None \<Rightarrow> Raised AttributeError lb2
                   | Some ch \<Rightarrow>
                       (case np_setitem (LogBook.weapons lb2) (card_value ch - 1) 0 of
                          Inl e \<Rightarrow> Raised e lb2
                        | Inr a \<Rightarrow> Done (lb2\<lparr>LogBook.weapons := a\<rparr>))))"

definition found_solution_room :: "Solution \<Rightarrow> LogBook \<Rightarrow> LogBook outcome" where
  "found_solution_room cand lb =
     (if Solution.room (LogBook.solution lb) \<noteq> None then Done lb
      else case dict_getitem (LogBook.log_book lb) (Solution.room cand) of
             Inl e \<Rightarrow> Raised e lb
           | Inr True \<Rightarrow> Done lb
           | Inr False \<Rightarrow>
               (let lb1 = lb\<lparr>LogBook.solution :=
                              (LogBook.solution lb)\<lparr>Solution.room := Solution.room cand\<rparr>\<rparr>;
                    lb2 = lb1\<lparr>LogBook.rooms := replicate 6 1\<rparr>
                in case Solution.character cand of
                     None \<Rightarrow> Raised AttributeError lb2
                   | Some ch \<Rightarrow>
                       (case np_setitem (LogBook.rooms lb2) (card_value ch - 1) 0 of
                          Inl e \<Rightarrow> Raised e lb2
                        | Inr a \<Rightarrow> Done (lb2\<lparr>LogBook.rooms := a\<rparr>))))"

definition found_solution :: "Solution \<Rightarrow> LogBook \<Rightarrow> LogBook outcome" where
  "found_solution cand lb =
     and_then (and_then (found_solution_character cand lb) (found_solution_weapon cand))
              (found_solution_room cand)"

text \<open>
  A run of calls on one LogBook. A call that raises ends the run, with the LogBook as
  the raise left it.
\<close>

datatype LogBook_call = Log "Card option" | Found_solution Solution

fun call :: "LogBook_call \<Rightarrow> LogBook \<Rightarrow> LogBook outcome" where
  "call (Log c_opt) lb = log c_opt lb"
| "call (Found_solution cand) lb = found_solution cand lb"

fun run_calls :: "LogBook_call list \<Rightarrow> LogBook \<Rightarrow> LogBook outcome" where
  "run_calls [] lb = Done lb"
| "run_calls (x # xs) lb = and_then (call x lb) (run_calls xs)"

section \<open>Paths (module \<^verbatim>\<open>paths\<close>)\<close>

text \<open>
  Modelled from the spec: the step classes \<^verbatim>\<open>Space\<close> and \<^verbatim>\<open>RoomPosition\<close> and the
  class \<^verbatim>\<open>RoomPath\<close> are not in \<^verbatim>\<open>player.py\<close>. A step is a free coordinate or a
  room entry; \<open>Unrecognized\<close> stands for any other object found in a path, the case
  the last branch of \<^verbatim>\<open>move_path\<close> is written for. A \<^verbatim>\<open>RoomPath\<close> is built from a
  target room and the ordered steps, \<^verbatim>\<open>RoomPath(room, path)\<close>, and its distance is
  the number of its steps (a path of distance 5 cut after 3 steps leaves a remainder
  of distance 2).
\<close>

datatype step = Space (row: int) (col: int) | RoomPosition Room | Unrecognized

record RoomPath =
  room :: Room
  path :: "step list"

definition distance :: "RoomPath \<Rightarrow> int" where
  "distance rp = int (length (RoomPath.path rp))"

text \<open>
  Modelled from the spec: the path-finding service \<^verbatim>\<open>Board\<close>, one path for each
  reachable target room.
\<close>

record Board =
  room_paths_from_position :: "int \<Rightarrow> int \<Rightarrow> Room list \<Rightarrow> RoomPath list"
  room_paths_from_room :: "Room \<Rightarrow> Room list \<Rightarrow> RoomPath list"

section \<open>Player\<close>

text \<open>
  The \<^verbatim>\<open>director\<close> field is the external game director and is left out. A method
  that subclasses override is passed to its callers as an argument: \<open>enter\<close> for
  \<^verbatim>\<open>self.enter_room\<close>, \<open>should_guess\<close> for \<^verbatim>\<open>self.should_guess_current_room\<close>.
\<close>

record Player =
  character :: "Character option"
  position :: "(int \<times> int) option"
  hand :: Hand
  log_book :: LogBook
  room :: "Room option"

definition reset :: "'a Player_scheme \<Rightarrow> 'a Player_scheme" where
  "reset p =
     p\<lparr>Player.hand := Hand_init, Player.log_book := LogBook_init, Player.room := None,
       Player.position := None, Player.character := None\<rparr>"

definition on_log_book ::
  "(LogBook \<Rightarrow> LogBook outcome) \<Rightarrow> 'a Player_scheme \<Rightarrow> 'a Player_scheme outcome" where
  "on_log_book f p =
     (case f (Player.log_book p) of
        Done lb \<Rightarrow> Done (p\<lparr>Player.log_book := lb\<rparr>)
      | Raised e lb \<Rightarrow> Raised e (p\<lparr>Player.log_book := lb\<rparr>))"

definition give_card :: "Card \<Rightarrow> 'a Player_scheme \<Rightarrow> 'a Player_scheme outcome" where
  "give_card c p =
     on_log_book (log (Some c)) (p\<lparr>Player.hand := add c (Player.hand p)\<rparr>)"

definition show_card :: "'a Player_scheme \<Rightarrow> Solution \<Rightarrow> py_error + Solution option" where
  "show_card p guess =
     (case compare_to_hand (Player.hand p) guess of
        Inl e \<Rightarrow> Inl e
      | Inr match \<Rightarrow>
          if is_empty match then Inr None
          else if Solution.character match \<noteq> None
          then Inr (Some (match\<lparr>Solution.weapon := None, Solution.room := None\<rparr>))
          else if Solution.weapon match \<noteq> None
          then Inr (Some (match\<lparr>Solution.character := None, Solution.room := None\<rparr>))
          else Inr (Some (match\<lparr>Solution.weapon := None, Solution.character := None\<rparr>)))"

definition log_guess_match ::
  "Solution \<Rightarrow> Solution option \<Rightarrow> nat \<Rightarrow> 'a Player_scheme \<Rightarrow> 'a Player_scheme outcome" where
  "log_guess_match guess match_opt skipped_count p =
     (case match_opt of
        None \<Rightarrow> on_log_book (found_solution guess) p
      | Some match \<Rightarrow>
          and_then
            (and_then (on_log_book (log (Solution.character match)) p)
                      (on_log_book (log (Solution.weapon match))))
            (on_log_book (log (Solution.room match))))"

definition next_turn_action ::
  "('a Player_scheme \<Rightarrow> py_error + bool) \<Rightarrow> 'a Player_scheme \<Rightarrow> py_error + PlayerAction" where
  "next_turn_action should_guess p =
     (if has_solution (Player.log_book p) then Inr ACCUSATION
      else if Player.room p = None then Inr MOVE
      else case should_guess p of
             Inl e \<Rightarrow> Inl e
           | Inr b \<Rightarrow> if \<not> b then Inr MOVE else Inr GUESS)"

definition Player_enter_room :: "Room \<Rightarrow> 'a Player_scheme \<Rightarrow> 'a Player_scheme" where
  "Player_enter_room r p = p\<lparr>Player.room := Some r, Player.position := None\<rparr>"

text \<open>
  The loop of \<^verbatim>\<open>move_path\<close>. The last branch evaluates the name \<^verbatim>\<open>Expection\<close>,
  which nothing defines: a \<^verbatim>\<open>NameError\<close>, raised with the earlier steps already
  taken.
\<close>

fun walk ::
  "(Room \<Rightarrow> 'a Player_scheme \<Rightarrow> 'a Player_scheme) \<Rightarrow> step list \<Rightarrow> 'a Player_scheme
     \<Rightarrow> 'a Player_scheme outcome" where
  "walk enter [] p = Done p"
| "walk enter (Space r c # ps) p =
     walk enter ps (p\<lparr>Player.room := None, Player.position := Some (r, c)\<rparr>)"
| "walk enter (RoomPosition m # ps) p = walk enter ps (enter m p)"
| "walk enter (Unrecognized # ps) p = Raised NameError p"

definition move_path ::
  "(Room \<Rightarrow> 'a Player_scheme \<Rightarrow> 'a Player_scheme) \<Rightarrow> int \<Rightarrow> RoomPath \<Rightarrow> 'a Player_scheme
     \<Rightarrow> 'a Player_scheme outcome" where
  "move_path enter roll room_path p =
     (if roll < distance room_path then Raised (Exception ''Path is longer than roll'') p
      else walk enter (RoomPath.path room_path) p)"

definition Player_should_guess_current_room :: "'a Player_scheme \<Rightarrow> py_error + bool" where
  "Player_should_guess_current_room p = Inl (Exception ''Not Implemented'')"

section \<open>ComputerPlayer\<close>

record ComputerPlayer = Player +
  remaining_path :: "RoomPath option"

definition ComputerPlayer_enter_room ::
  "Room \<Rightarrow> 'a ComputerPlayer_scheme \<Rightarrow> 'a ComputerPlayer_scheme" where
  "ComputerPlayer_enter_room r p = (Player_enter_room r p)\<lparr>remaining_path := None\<rparr>"

definition decide_weapon_guess :: "nat \<Rightarrow> 'a ComputerPlayer_scheme \<Rightarrow> py_error + Card" where
  "decide_weapon_guess rnd p =
     (case Solution.weapon (LogBook.solution (Player.log_book p)) of
        Some c \<Rightarrow> Inr c
      | None \<Rightarrow> random_choice rnd (get (Player.log_book p) WEAPON False))"

definition decide_character_guess :: "nat \<Rightarrow> 'a ComputerPlayer_scheme \<Rightarrow> py_error + Card" where
  "decide_character_guess rnd p =
     (case Solution.character (LogBook.solution (Player.log_book p)) of
        Some c \<Rightarrow> Inr c
      | None \<Rightarrow> random_choice rnd (get (Player.log_book p) CHARACTER False))"

text \<open>
  \<^verbatim>\<open>should_guess_current_room\<close>: with no current room the card built from
  \<^verbatim>\<open>None\<close> is no key of the dictionary. \<^verbatim>\<open>or\<close> and \<^verbatim>\<open>and\<close> short-circuit.
\<close>

definition should_guess_current_room :: "'a ComputerPlayer_scheme \<Rightarrow> py_error + bool" where
  "should_guess_current_room p =
     (case Player.room p of
        None \<Rightarrow> Inl KeyError
      | Some r \<Rightarrow>
          (case is_room_known (Player.log_book p) r of
             Inl e \<Rightarrow> Inl e
           | Inr known \<Rightarrow>
               if \<not> known then Inr True
               else if Solution.room (LogBook.solution (Player.log_book p)) \<noteq> None
               then has_card (Player.hand p) (Some (Card r ROOM))
               else Inr False))"

definition get_unknown_rooms :: "'a ComputerPlayer_scheme \<Rightarrow> Room list" where
  "get_unknown_rooms p = map card_value (get (Player.log_book p) ROOM False)"

text \<open>
  \<^verbatim>\<open>use_roll\<close> and \<^verbatim>\<open>_use_remaining_roll\<close> return the path for this turn and leave
  the player with the remainder; neither mutates the player before a point where it
  can raise, so an exception is the error alone.
\<close>

definition use_remaining_roll ::
  "int \<Rightarrow> 'a ComputerPlayer_scheme \<Rightarrow> py_error + ('a ComputerPlayer_scheme \<times> RoomPath)" where
  "use_remaining_roll roll p =
     (case remaining_path p of
        None \<Rightarrow> Inl AttributeError
      | Some rem \<Rightarrow>
          if distance rem > roll
          then (let r = RoomPath.room rem;
                    this_path = slice_to (RoomPath.path rem) roll;
                    rest = slice_from (RoomPath.path rem) roll
                in Inr (p\<lparr>remaining_path := Some \<lparr>RoomPath.room = r, path = rest\<rparr>\<rparr>,
                        \<lparr>RoomPath.room = r, path = this_path\<rparr>))
          else Inr (p\<lparr>remaining_path := None\<rparr>, rem))"

text \<open>
  Lines 309 to 319 of \<^verbatim>\<open>use_roll\<close>: the paths to the unknown rooms, from the
  position or from the room, and the random choice among them. With neither a room
  nor a position, \<^verbatim>\<open>self.position[0]\<close> subscripts \<^verbatim>\<open>None\<close>.
\<close>

definition choose_path :: "Board \<Rightarrow> nat \<Rightarrow> 'a ComputerPlayer_scheme \<Rightarrow> py_error + RoomPath" where
  "choose_path board rnd p =
     (let unknown_rooms = get_unknown_rooms p
      in case (case Player.room p of
                 None \<Rightarrow>
                   (case Player.position p of
                      None \<Rightarrow> Inl TypeError
                    | Some (r, c) \<Rightarrow> Inr (room_paths_from_position board r c unknown_rooms))
               | Some m \<Rightarrow> Inr (room_paths_from_room board m unknown_rooms)) of
           Inl e \<Rightarrow> Inl e
         | Inr room_paths \<Rightarrow> random_choice rnd room_paths)"

definition use_roll ::
  "Board \<Rightarrow> nat \<Rightarrow> int \<Rightarrow> 'a ComputerPlayer_scheme
     \<Rightarrow> py_error + ('a ComputerPlayer_scheme \<times> RoomPath)" where
  "use_roll board rnd roll p =
     (if remaining_path p \<noteq> None then use_remaining_roll roll p
      else case choose_path board rnd p of
             Inl e \<Rightarrow> Inl e
           | Inr chosen \<Rightarrow>
               if distance chosen > roll
               then Inr (p\<lparr>remaining_path :=
                             Some \<lparr>RoomPath.room = RoomPath.room chosen,
                                   path = slice_from (RoomPath.path chosen) roll\<rparr>\<rparr>,
                         \<lparr>RoomPath.room = RoomPath.room chosen,
                          path = slice_to (RoomPath.path chosen) roll\<rparr>)
               else Inr (p, chosen))"

text \<open>
  The object after \<^verbatim>\<open>ComputerPlayer()\<close> and \<^verbatim>\<open>reset()\<close>: the constructor sets
  \<^verbatim>\<open>remaining_path\<close>, \<^verbatim>\<open>reset\<close> the other fields.
\<close>

definition ComputerPlayer_new :: ComputerPlayer where
  "ComputerPlayer_new =
     \<lparr>character = None, position = None, hand = Hand_init, log_book = LogBook_init,
      room = None, remaining_path = None\<rparr>"

section \<open>Notions used by the properties\<close>

text \<open>
  \<open>logged c lb\<close> is the LogBook after lines 92 and 93 of \<^verbatim>\<open>log\<close> (the dictionary
  entry written and \<^verbatim>\<open>find_solution\<close> run), before the array is indexed.
\<close>

definition logged :: "Card \<Rightarrow> LogBook \<Rightarrow> LogBook" where
  "logged c lb =
     find_solution (card_type c)
       (lb\<lparr>LogBook.log_book := dict_set (LogBook.log_book lb) c True\<rparr>)"

text \<open>A card is eliminated when the dictionary maps it to \<^verbatim>\<open>True\<close>.\<close>

definition eliminated :: "LogBook \<Rightarrow> Card \<Rightarrow> bool" where
  "eliminated lb c = (dict_lookup (LogBook.log_book lb) c = Some True)"

text \<open>The slot of a solution that belongs to a category.\<close>

fun slot :: "CardType \<Rightarrow> Solution \<Rightarrow> Card option" where
  "slot WEAPON s = Solution.weapon s"
| "slot ROOM s = Solution.room s"
| "slot CHARACTER s = Solution.character s"

text \<open>
  The agreement between the dictionary and the deduced solution that \<^verbatim>\<open>log\<close>
  maintains: a category whose slot is unset does not have exactly one card left, and
  a category whose slot is set has no card left but the one in the slot.
\<close>

definition deduction_inv :: "LogBook \<Rightarrow> bool" where
  "deduction_inv lb =
     (\<forall>K. case slot K (LogBook.solution lb) of
             None \<Rightarrow> length (get lb K False) \<noteq> 1
           | Some x \<Rightarrow> set (get lb K False) \<subseteq> {x})"

section \<open>Hand and SolutionMatcher\<close>

lemma has_card_Some:
  "has_card h (Some c) =
     Inr (case card_type c of
            WEAPON \<Rightarrow> c \<in> set (Hand.weapons h)
          | ROOM \<Rightarrow> c \<in> set (Hand.rooms h)
          | CHARACTER \<Rightarrow> c \<in> set (Hand.characters h))"
  by (simp add: has_card_def split: CardType.split)

lemma add_all_lists:
  "Hand.weapons (foldl (\<lambda>h c. add c h) h cs) =
     Hand.weapons h @ filter (\<lambda>c. card_type c = WEAPON) cs"
  "Hand.rooms (foldl (\<lambda>h c. add c h) h cs) =
     Hand.rooms h @ filter (\<lambda>c. card_type c = ROOM) cs"
  "Hand.characters (foldl (\<lambda>h c. add c h) h cs) =
     Hand.characters h @ filter (\<lambda>c. card_type c = CHARACTER) cs"
  by (induction cs arbitrary: h; simp add: add_def Let_def split: CardType.split)+

lemma has_card_dealt:
  "has_card (foldl (\<lambda>h c. add c h) Hand_init cs) (Some x) = Inr (x \<in> set cs)"
  by (cases "card_type x") (simp_all add: has_card_Some add_all_lists Hand_init_def)

lemma compare_to_hand_Some:
  "compare_to_hand h \<lparr>weapon = Some w, character = Some c, room = Some r\<rparr> =
     Inr \<lparr>weapon = (if has_card h (Some w) = Inr True then Some w else None),
          character = (if has_card h (Some c) = Inr True then Some c else None),
          room = (if has_card h (Some r) = Inr True then Some r else None)\<rparr>"
  by (simp add: compare_to_hand_def has_card_Some)

lemma compare_to_hand_unset:
  "\<not> is_complete s \<Longrightarrow> compare_to_hand h s = Inl AttributeError"
  by (auto simp add: compare_to_hand_def is_complete_def has_card_def Let_def
           split: sum.splits option.splits CardType.splits)

text \<open>
  Claim C8, as amended. For every Hand and every complete candidate Solution,
  \<^verbatim>\<open>compare_to_hand\<close> returns a Solution whose populated slots are exactly the
  candidate's slots whose card the Hand holds, every other slot unset; the result
  depends on the Hand and the candidate alone. A candidate with an unset slot is not
  matched: \<^verbatim>\<open>has_card\<close> is handed \<^verbatim>\<open>None\<close> and the call raises \<^verbatim>\<open>AttributeError\<close>.
  A Hand built by \<^verbatim>\<open>add\<close> holds a card exactly when the card was added.
\<close>

theorem compare_to_hand_complete:
  "compare_to_hand h \<lparr>weapon = Some w, character = Some c, room = Some r\<rparr> =
     Inr \<lparr>weapon = (if has_card h (Some w) = Inr True then Some w else None),
          character = (if has_card h (Some c) = Inr True then Some c else None),
          room = (if has_card h (Some r) = Inr True then Some r else None)\<rparr> \<and>
   (\<not> is_complete s \<longrightarrow> compare_to_hand h s = Inl AttributeError) \<and>
   has_card (foldl (\<lambda>h c. add c h) Hand_init cs) (Some x) = Inr (x \<in> set cs)"
  by (simp add: compare_to_hand_Some compare_to_hand_unset has_card_dealt)

theorem compare_to_hand_complete_witness:
  "\<not> is_complete \<lparr>weapon = Some (Card 1 WEAPON), character = None, room = None\<rparr> \<and>
   compare_to_hand (add (Card 1 WEAPON) Hand_init)
     \<lparr>weapon = Some (Card 1 WEAPON), character = None, room = None\<rparr> = Inl AttributeError \<and>
   compare_to_hand (add (Card 1 WEAPON) Hand_init)
     \<lparr>weapon = Some (Card 1 WEAPON), character = Some (Card 2 CHARACTER),
      room = Some (Card 3 ROOM)\<rparr> =
     Inr \<lparr>weapon = Some (Card 1 WEAPON), character = None, room = None\<rparr>"
proof -
  have unset: "\<not> is_complete \<lparr>weapon = Some (Card 1 WEAPON), character = None, room = None\<rparr>"
    by (simp add: is_complete_def)
  have held: "has_card (add (Card 1 WEAPON) Hand_init) (Some (Card 1 WEAPON)) = Inr True"
    "has_card (add (Card 1 WEAPON) Hand_init) (Some (Card 2 CHARACTER)) = Inr False"
    "has_card (add (Card 1 WEAPON) Hand_init) (Some (Card 3 ROOM)) = Inr False"
    by (simp_all add: has_card_def add_def Hand_init_def)
  from unset held
    compare_to_hand_complete [of "add (Card 1 WEAPON) Hand_init" "Card 1 WEAPON"
      "Card 2 CHARACTER" "Card 3 ROOM"
      "\<lparr>weapon = Some (Card 1 WEAPON), character = None, room = None\<rparr>"]
  show ?thesis by simp
qed

theorem compare_to_hand_partial_counterexample:
  "compare_to_hand (add (Card 1 WEAPON) Hand_init)
     \<lparr>weapon = Some (Card 1 WEAPON), character = None, room = None\<rparr> = Inl AttributeError"
  by (simp add: compare_to_hand_def has_card_def add_def Hand_init_def)

text \<open>
  Claim C7. For every player, whatever its Hand, and every complete guess,
  \<^verbatim>\<open>show_card\<close> returns \<^verbatim>\<open>None\<close> when the Hand holds none of the three cards, and
  otherwise a Solution with exactly one populated slot: the character when the Hand
  holds it, else the weapon when the Hand holds it, else the room.
\<close>

theorem show_card_one_slot:
  "show_card p \<lparr>weapon = Some w, character = Some c, room = Some r\<rparr> =
     Inr (if has_card (Player.hand p) (Some c) = Inr True
          then Some \<lparr>weapon = None, character = Some c, room = None\<rparr>
          else if has_card (Player.hand p) (Some w) = Inr True
          then Some \<lparr>weapon = Some w, character = None, room = None\<rparr>
          else if has_card (Player.hand p) (Some r) = Inr True
          then Some \<lparr>weapon = None, character = None, room = Some r\<rparr>
          else None)"
  by (simp add: show_card_def compare_to_hand_Some is_empty_def)

theorem show_card_one_slot_witness:
  "show_card
     (ComputerPlayer_new
        \<lparr>Player.hand :=
           add (Card 3 ROOM) (add (Card 2 CHARACTER) (add (Card 1 WEAPON) Hand_init))\<rparr>)
     \<lparr>weapon = Some (Card 1 WEAPON), character = Some (Card 2 CHARACTER),
      room = Some (Card 3 ROOM)\<rparr> =
     Inr (Some \<lparr>weapon = None, character = Some (Card 2 CHARACTER), room = None\<rparr>) \<and>
   show_card (ComputerPlayer_new\<lparr>Player.hand := add (Card 3 ROOM) Hand_init\<rparr>)
     \<lparr>weapon = Some (Card 1 WEAPON), character = Some (Card 2 CHARACTER),
      room = Some (Card 3 ROOM)\<rparr> =
     Inr (Some \<lparr>weapon = None, character = None, room = Some (Card 3 ROOM)\<rparr>) \<and>
   show_card ComputerPlayer_new
     \<lparr>weapon = Some (Card 1 WEAPON), character = Some (Card 2 CHARACTER),
      room = Some (Card 3 ROOM)\<rparr> = Inr None"
  using show_card_one_slot [of
      "ComputerPlayer_new
        \<lparr>Player.hand :=
           add (Card 3 ROOM) (add (Card 2 CHARACTER) (add (Card 1 WEAPON) Hand_init))\<rparr>"
      "Card 1 WEAPON" "Card 2 CHARACTER" "Card 3 ROOM"]
    show_card_one_slot [of "ComputerPlayer_new\<lparr>Player.hand := add (Card 3 ROOM) Hand_init\<rparr>"
      "Card 1 WEAPON" "Card 2 CHARACTER" "Card 3 ROOM"]
    show_card_one_slot [of ComputerPlayer_new
      "Card 1 WEAPON" "Card 2 CHARACTER" "Card 3 ROOM"]
  by (simp add: has_card_def add_def Hand_init_def ComputerPlayer_new_def)

section \<open>Dictionaries and arrays\<close>

lemma dict_lookup_dict_set:
  "dict_lookup (dict_set d k v) k' = (if k' = k then Some v else dict_lookup d k')"
  by (induction d) auto

lemma dict_set_twice: "dict_set (dict_set d k v) k v = dict_set d k v"
  by (induction d) auto

lemma dict_set_True_keeps_entry:
  "(c, True) \<in> set d \<Longrightarrow> (c, True) \<in> set (dict_set d k True)"
  by (induction d) auto

lemma dict_set_keys:
  "map fst (dict_set d k v) = (if k \<in> fst ` set d then map fst d else map fst d @ [k])"
  by (induction d) (auto simp add: rev_image_eqI)

lemma dict_set_distinct:
  "distinct (map fst d) \<Longrightarrow> distinct (map fst (dict_set d k v))"
  by (simp add: dict_set_keys)

lemma set_dict_set: "set (dict_set d k v) \<subseteq> insert (k, v) (set d)"
  by (induction d) (auto split: if_splits)

lemma filter_dict_set_other:
  "\<not> P (k, v) \<Longrightarrow> (\<And>w. \<not> P (k, w)) \<Longrightarrow> filter P (dict_set d k v) = filter P d"
  by (induction d) auto

lemma distinct_lookup_not_False:
  "distinct (map fst d) \<Longrightarrow> dict_lookup d c = Some True \<Longrightarrow> (c, False) \<notin> set d"
  by (induction d) (auto simp add: rev_image_eqI split: if_splits)

lemma np_setitem_twice: "np_setitem a i v = Inr a' \<Longrightarrow> np_setitem a' i v = Inr a'"
  by (auto simp add: np_setitem_def Let_def split: if_splits)

lemma np_setitem_in_range:
  "0 \<le> i \<Longrightarrow> i < int (length a) \<Longrightarrow> np_setitem a i v = Inr (a[nat i := v])"
  by (simp add: np_setitem_def)

lemma outcome_state_and_then:
  "outcome_state (and_then x f) =
     (case x of Done s \<Rightarrow> outcome_state (f s) | Raised e s \<Rightarrow> s)"
  by (cases x) simp_all

section \<open>LogBook: what \<^verbatim>\<open>get\<close>, \<^verbatim>\<open>find_solution\<close> and \<^verbatim>\<open>log\<close> read and write\<close>

lemma get_solution_update [simp]: "get (lb\<lparr>LogBook.solution := s\<rparr>) K b = get lb K b"
  by (simp add: get_def)

lemma get_array_update [simp]:
  "get (lb\<lparr>LogBook.weapons := a\<rparr>) K b = get lb K b"
  "get (lb\<lparr>LogBook.characters := a\<rparr>) K b = get lb K b"
  "get (lb\<lparr>LogBook.rooms := a\<rparr>) K b = get lb K b"
  by (simp_all add: get_def)

lemma get_log_book_cong:
  "LogBook.log_book lb' = LogBook.log_book lb \<Longrightarrow> get lb' K b = get lb K b"
  by (simp add: get_def)

lemma get_dict_set_other:
  "card_type c \<noteq> K \<Longrightarrow>
     get (lb\<lparr>LogBook.log_book := dict_set (LogBook.log_book lb) c v\<rparr>) K b = get lb K b"
  by (simp add: get_def filter_dict_set_other)

lemma get_False_dict_set_True:
  "set (get (lb\<lparr>LogBook.log_book := dict_set (LogBook.log_book lb) c True\<rparr>) K False)
     \<subseteq> set (get lb K False)"
  using set_dict_set [of "LogBook.log_book lb" c True]
  by (auto simp add: get_def)

lemma log_book_find_solution [simp]:
  "LogBook.log_book (find_solution K lb) = LogBook.log_book lb"
  by (simp add: find_solution_def Let_def)

lemma weapons_find_solution [simp]:
  "LogBook.weapons (find_solution K lb) = LogBook.weapons lb"
  by (simp add: find_solution_def Let_def)

lemma characters_find_solution [simp]:
  "LogBook.characters (find_solution K lb) = LogBook.characters lb"
  by (simp add: find_solution_def Let_def)

lemma rooms_find_solution [simp]:
  "LogBook.rooms (find_solution K lb) = LogBook.rooms lb"
  by (simp add: find_solution_def Let_def)

lemma get_find_solution [simp]: "get (find_solution K' lb) K b = get lb K b"
  by (simp add: get_def)

lemma find_solution_twice: "find_solution K (find_solution K lb) = find_solution K lb"
  by (cases K) (auto simp add: find_solution_def Let_def is_complete_def)

lemma find_solution_other_slots:
  "K \<noteq> WEAPON \<Longrightarrow>
     Solution.weapon (LogBook.solution (find_solution K lb)) = Solution.weapon (LogBook.solution lb)"
  "K \<noteq> CHARACTER \<Longrightarrow>
     Solution.character (LogBook.solution (find_solution K lb)) =
       Solution.character (LogBook.solution lb)"
  "K \<noteq> ROOM \<Longrightarrow>
     Solution.room (LogBook.solution (find_solution K lb)) = Solution.room (LogBook.solution lb)"
  by (simp_all add: find_solution_def Let_def)

lemma slot_find_solution_same:
  "slot K (LogBook.solution (find_solution K lb)) =
     (case slot K (LogBook.solution lb) of
        Some x \<Rightarrow> Some x
      | None \<Rightarrow> if length (get lb K False) = 1 then Some (get lb K False ! 0) else None)"
  by (cases K) (auto simp add: find_solution_def Let_def is_complete_def)

lemma slot_find_solution_other:
  "K \<noteq> K' \<Longrightarrow> slot K (LogBook.solution (find_solution K' lb)) = slot K (LogBook.solution lb)"
  by (cases K) (simp_all add: find_solution_other_slots)

lemma log_Some:
  "log (Some c) lb =
     (case card_type c of
        WEAPON \<Rightarrow>
          (case np_setitem (LogBook.weapons lb) (card_value c - 1) 1 of
             Inl e \<Rightarrow> Raised e (logged c lb)
           | Inr a \<Rightarrow> Done ((logged c lb)\<lparr>LogBook.weapons := a\<rparr>))
      | CHARACTER \<Rightarrow>
          (case np_setitem (LogBook.characters lb) (card_value c - 1) 1 of
             Inl e \<Rightarrow> Raised e (logged c lb)
           | Inr a \<Rightarrow> Done ((logged c lb)\<lparr>LogBook.characters := a\<rparr>))
      | ROOM \<Rightarrow>
          (case np_setitem (LogBook.rooms lb) (card_value c - 1) 1 of
             Inl e \<Rightarrow> Raised e (logged c lb)
           | Inr a \<Rightarrow> Done ((logged c lb)\<lparr>LogBook.rooms := a\<rparr>)))"
  unfolding logged_def by (simp add: log_def Let_def split: CardType.split)

lemma logged_twice: "logged c (logged c lb) = logged c lb"
proof -
  have "(logged c lb)\<lparr>LogBook.log_book := dict_set (LogBook.log_book (logged c lb)) c True\<rparr>
          = logged c lb"
    by (simp add: logged_def dict_set_twice)
  then show ?thesis
    unfolding logged_def by (simp add: find_solution_twice)
qed

lemma logged_array_update:
  "logged c (lb\<lparr>LogBook.weapons := a\<rparr>) = (logged c lb)\<lparr>LogBook.weapons := a\<rparr>"
  "logged c (lb\<lparr>LogBook.characters := a\<rparr>) = (logged c lb)\<lparr>LogBook.characters := a\<rparr>"
  "logged c (lb\<lparr>LogBook.rooms := a\<rparr>) = (logged c lb)\<lparr>LogBook.rooms := a\<rparr>"
  by (simp_all add: logged_def find_solution_def Let_def get_def)

lemma logged_arrays [simp]:
  "LogBook.weapons (logged c lb) = LogBook.weapons lb"
  "LogBook.characters (logged c lb) = LogBook.characters lb"
  "LogBook.rooms (logged c lb) = LogBook.rooms lb"
  by (simp_all add: logged_def)

lemma log_again: "log (Some c) (outcome_state (log (Some c) lb)) = log (Some c) lb"
  by (cases "card_type c")
     (auto simp add: log_Some logged_twice logged_array_update np_setitem_twice
           split: sum.splits)

lemma log_book_log:
  "LogBook.log_book (outcome_state (log (Some c) lb)) = dict_set (LogBook.log_book lb) c True"
  by (cases "card_type c") (simp_all add: log_Some logged_def split: sum.split)

lemma solution_log:
  "LogBook.solution (outcome_state (log (Some c) lb)) = LogBook.solution (logged c lb)"
  by (cases "card_type c") (simp_all add: log_Some split: sum.split)

lemma init_log_book:
  "LogBook.log_book LogBook_init = map (\<lambda>c. (c, False)) static_deck"
  by (simp add: LogBook_init_def static_deck_def)

text \<open>
  Claim C9. \<^verbatim>\<open>log\<close> is idempotent: a second \<^verbatim>\<open>log(c)\<close> after the first ends as the
  first did, with the same LogBook, whether the second call is made only after a
  normal return or also after the first has raised; and \<^verbatim>\<open>log(None)\<close> returns at
  once with the LogBook unchanged.
\<close>

theorem log_idempotent:
  "and_then (log c_opt lb) (log c_opt) = log c_opt lb \<and>
   log c_opt (outcome_state (log c_opt lb)) = log c_opt lb \<and>
   log None lb = Done lb"
proof (cases c_opt)
  case None
  then show ?thesis by (simp add: log_def)
next
  case (Some c)
  have again: "log (Some c) (outcome_state (log (Some c) lb)) = log (Some c) lb"
    by (rule log_again)
  have "and_then (log (Some c) lb) (log (Some c)) = log (Some c) lb"
    using again by (cases "log (Some c) lb") simp_all
  with again Some show ?thesis by (simp add: log_def)
qed

text \<open>
  Claim C10. \<^verbatim>\<open>log(c)\<close> for a card \<open>c\<close> of category \<open>K\<close> marks \<open>c\<close> eliminated and
  leaves the dictionary entry of every other card as it was; the cards that
  \<^verbatim>\<open>get\<close> reports for each other category are unchanged; and the Solution slots
  of the two other categories are unchanged. This holds also when the call raises.
\<close>

theorem log_frame:
  "dict_lookup (LogBook.log_book (outcome_state (log (Some c) lb))) c = Some True \<and>
   (c' \<noteq> c \<longrightarrow>
      dict_lookup (LogBook.log_book (outcome_state (log (Some c) lb))) c' =
        dict_lookup (LogBook.log_book lb) c') \<and>
   (K \<noteq> card_type c \<longrightarrow>
      get (outcome_state (log (Some c) lb)) K known = get lb K known) \<and>
   (card_type c \<noteq> WEAPON \<longrightarrow>
      Solution.weapon (LogBook.solution (outcome_state (log (Some c) lb))) =
        Solution.weapon (LogBook.solution lb)) \<and>
   (card_type c \<noteq> CHARACTER \<longrightarrow>
      Solution.character (LogBook.solution (outcome_state (log (Some c) lb))) =
        Solution.character (LogBook.solution lb)) \<and>
   (card_type c \<noteq> ROOM \<longrightarrow>
      Solution.room (LogBook.solution (outcome_state (log (Some c) lb))) =
        Solution.room (LogBook.solution lb))"
proof -
  have own: "dict_lookup (LogBook.log_book (outcome_state (log (Some c) lb))) c = Some True"
    by (simp add: log_book_log dict_lookup_dict_set)
  have lookup: "c' \<noteq> c \<Longrightarrow>
      dict_lookup (LogBook.log_book (outcome_state (log (Some c) lb))) c' =
        dict_lookup (LogBook.log_book lb) c'"
    by (simp add: log_book_log dict_lookup_dict_set)
  have "get (outcome_state (log (Some c) lb)) K known =
          get (lb\<lparr>LogBook.log_book := dict_set (LogBook.log_book lb) c True\<rparr>) K known"
    by (rule get_log_book_cong) (simp add: log_book_log)
  then have others: "K \<noteq> card_type c \<Longrightarrow>
      get (outcome_state (log (Some c) lb)) K known = get lb K known"
    by (simp add: get_dict_set_other)
  have slots:
    "card_type c \<noteq> WEAPON \<Longrightarrow>
      Solution.weapon (LogBook.solution (outcome_state (log (Some c) lb))) =
        Solution.weapon (LogBook.solution lb)"
    "card_type c \<noteq> CHARACTER \<Longrightarrow>
      Solution.character (LogBook.solution (outcome_state (log (Some c) lb))) =
        Solution.character (LogBook.solution lb)"
    "card_type c \<noteq> ROOM \<Longrightarrow>
      Solution.room (LogBook.solution (outcome_state (log (Some c) lb))) =
        Solution.room (LogBook.solution lb)"
    by (simp_all add: solution_log logged_def find_solution_other_slots)
  from own lookup others slots show ?thesis by blast
qed

theorem log_idempotent_witness:
  "log (Some (Card 1 WEAPON)) (outcome_state (log (Some (Card 1 WEAPON)) LogBook_init)) =
     log (Some (Card 1 WEAPON)) LogBook_init \<and>
   log None LogBook_init = Done LogBook_init"
  using log_idempotent [of "Some (Card 1 WEAPON)" LogBook_init]
  by simp

theorem log_frame_witness:
  "Card 2 WEAPON \<noteq> Card 1 WEAPON \<and> ROOM \<noteq> card_type (Card 1 WEAPON) \<and>
   card_type (Card 1 WEAPON) \<noteq> CHARACTER \<and> card_type (Card 1 WEAPON) \<noteq> ROOM \<and>
   card_type (Card 1 ROOM) \<noteq> WEAPON \<and>
   dict_lookup (LogBook.log_book (outcome_state (log (Some (Card 1 WEAPON)) LogBook_init)))
     (Card 2 WEAPON) = dict_lookup (LogBook.log_book LogBook_init) (Card 2 WEAPON) \<and>
   get (outcome_state (log (Some (Card 1 WEAPON)) LogBook_init)) ROOM False =
     get LogBook_init ROOM False \<and>
   Solution.character (LogBook.solution (outcome_state (log (Some (Card 1 WEAPON)) LogBook_init))) =
     Solution.character (LogBook.solution LogBook_init) \<and>
   Solution.room (LogBook.solution (outcome_state (log (Some (Card 1 WEAPON)) LogBook_init))) =
     Solution.room (LogBook.solution LogBook_init) \<and>
   Solution.weapon (LogBook.solution (outcome_state (log (Some (Card 1 ROOM)) LogBook_init))) =
     Solution.weapon (LogBook.solution LogBook_init)"
  using log_frame [of "Card 1 WEAPON" LogBook_init "Card 2 WEAPON" ROOM False]
    log_frame [of "Card 1 ROOM" LogBook_init "Card 2 WEAPON" WEAPON False]
  by simp

section \<open>LogBook: runs of calls\<close>

lemma log_book_found_solution_character:
  "LogBook.log_book (outcome_state (found_solution_character cand lb)) = LogBook.log_book lb"
  by (simp add: found_solution_character_def Let_def split: sum.split bool.split option.split)

lemma log_book_found_solution_weapon:
  "LogBook.log_book (outcome_state (found_solution_weapon cand lb)) = LogBook.log_book lb"
  by (simp add: found_solution_weapon_def Let_def split: sum.split bool.split option.split)

lemma log_book_found_solution_room:
  "LogBook.log_book (outcome_state (found_solution_room cand lb)) = LogBook.log_book lb"
  by (simp add: found_solution_room_def Let_def split: sum.split bool.split option.split)

lemma log_book_found_solution:
  "LogBook.log_book (outcome_state (found_solution cand lb)) = LogBook.log_book lb"
proof -
  have "LogBook.log_book (outcome_state (and_then x (found_solution_weapon cand))) =
          LogBook.log_book (outcome_state x)" for x
    by (cases x) (simp_all add: log_book_found_solution_weapon)
  moreover have "LogBook.log_book (outcome_state (and_then y (found_solution_room cand))) =
          LogBook.log_book (outcome_state y)" for y
    by (cases y) (simp_all add: log_book_found_solution_room)
  ultimately show ?thesis
    by (simp add: found_solution_def log_book_found_solution_character)
qed

lemma log_book_log_opt:
  "LogBook.log_book (outcome_state (log c_opt lb)) =
     (case c_opt of None \<Rightarrow> LogBook.log_book lb
      | Some c \<Rightarrow> dict_set (LogBook.log_book lb) c True)"
  by (cases c_opt) (simp_all add: log_book_log, simp add: log_def)

lemma call_log_book_cases:
  "LogBook.log_book (outcome_state (call x lb)) = LogBook.log_book lb \<or>
   (\<exists>k. LogBook.log_book (outcome_state (call x lb)) = dict_set (LogBook.log_book lb) k True)"
proof (cases x)
  case (Log c_opt)
  then show ?thesis by (cases c_opt) (auto simp add: log_book_log_opt)
next
  case (Found_solution cand)
  then show ?thesis by (simp add: log_book_found_solution)
qed

lemma call_monotone:
  "eliminated lb c \<Longrightarrow> eliminated (outcome_state (call x lb)) c"
  using call_log_book_cases [of x lb]
  by (auto simp add: eliminated_def dict_lookup_dict_set)

lemma call_monotone_get:
  "c \<in> set (get lb K True) \<Longrightarrow> c \<in> set (get (outcome_state (call x lb)) K True)"
  using call_log_book_cases [of x lb]
  by (auto simp add: get_def dict_set_True_keeps_entry)

lemma call_distinct:
  "distinct (map fst (LogBook.log_book lb)) \<Longrightarrow>
     distinct (map fst (LogBook.log_book (outcome_state (call x lb))))"
  using call_log_book_cases [of x lb]
  by (auto simp add: dict_set_distinct)

lemma run_calls_induct_state:
  assumes step: "\<And>x lb. P lb \<Longrightarrow> P (outcome_state (call x lb))"
  shows "P lb \<Longrightarrow> P (outcome_state (run_calls xs lb))"
proof (induction xs arbitrary: lb)
  case Nil
  then show ?case by simp
next
  case (Cons x xs)
  show ?case
  proof (cases "call x lb")
    case (Done lb')
    with step [OF Cons.prems, of x] have "P lb'" by simp
    then have "P (outcome_state (run_calls xs lb'))" by (rule Cons.IH)
    with Done show ?thesis by simp
  next
    case (Raised e lb')
    with step [OF Cons.prems, of x] show ?thesis by simp
  qed
qed

lemma run_calls_append:
  "run_calls (xs @ ys) lb = and_then (run_calls xs lb) (run_calls ys)"
proof (induction xs arbitrary: lb)
  case Nil
  then show ?case by simp
next
  case (Cons x xs)
  then show ?case by (cases "call x lb") simp_all
qed

text \<open>
  Claim C3. Along every run of \<^verbatim>\<open>log\<close> and \<^verbatim>\<open>found_solution\<close> calls, in any order
  and with any arguments, a card that is eliminated after the calls \<open>xs\<close> is still
  eliminated after any further calls \<open>ys\<close>: the dictionary still maps it to
  \<^verbatim>\<open>True\<close>, \<^verbatim>\<open>get(category, True)\<close> still reports it, and (the dictionary having
  one entry per key) \<^verbatim>\<open>get(category, False)\<close> does not report it.
\<close>

theorem eliminated_monotone:
  "(eliminated (outcome_state (run_calls xs lb)) c \<longrightarrow>
      eliminated (outcome_state (run_calls (xs @ ys) lb)) c) \<and>
   (c \<in> set (get (outcome_state (run_calls xs lb)) K True) \<longrightarrow>
      c \<in> set (get (outcome_state (run_calls (xs @ ys) lb)) K True)) \<and>
   (distinct (map fst (LogBook.log_book lb)) \<and> eliminated (outcome_state (run_calls xs lb)) c \<longrightarrow>
      c \<notin> set (get (outcome_state (run_calls (xs @ ys) lb)) K False))"
proof -
  define mid where "mid = outcome_state (run_calls xs lb)"
  have later: "outcome_state (run_calls (xs @ ys) lb) = mid \<or>
               outcome_state (run_calls (xs @ ys) lb) = outcome_state (run_calls ys mid)"
    unfolding mid_def run_calls_append by (cases "run_calls xs lb") simp_all
  have e: "eliminated mid c \<Longrightarrow> eliminated (outcome_state (run_calls ys mid)) c"
    by (rule run_calls_induct_state [where P = "\<lambda>s. eliminated s c"]) (rule call_monotone)
  have g: "c \<in> set (get mid K True) \<Longrightarrow> c \<in> set (get (outcome_state (run_calls ys mid)) K True)"
    by (rule run_calls_induct_state [where P = "\<lambda>s. c \<in> set (get s K True)"])
       (rule call_monotone_get)
  have d: "distinct (map fst (LogBook.log_book lb)) \<Longrightarrow>
           distinct (map fst (LogBook.log_book (outcome_state (run_calls zs lb))))" for zs
    by (rule run_calls_induct_state [where P = "\<lambda>s. distinct (map fst (LogBook.log_book s))"])
       (rule call_distinct)
  have n: "distinct (map fst (LogBook.log_book s)) \<Longrightarrow> eliminated s c \<Longrightarrow>
           c \<notin> set (get s K False)" for s
    using distinct_lookup_not_False [of "LogBook.log_book s" c]
    by (auto simp add: eliminated_def get_def)
  have e': "eliminated mid c \<Longrightarrow> eliminated (outcome_state (run_calls (xs @ ys) lb)) c"
    using later e by auto
  have g': "c \<in> set (get mid K True) \<Longrightarrow>
            c \<in> set (get (outcome_state (run_calls (xs @ ys) lb)) K True)"
    using later g by auto
  have n': "distinct (map fst (LogBook.log_book lb)) \<Longrightarrow> eliminated mid c \<Longrightarrow>
            c \<notin> set (get (outcome_state (run_calls (xs @ ys) lb)) K False)"
    using n [OF d [of "xs @ ys"]] e' by blast
  from e' g' n' show ?thesis unfolding mid_def by blast
qed

theorem eliminated_monotone_witness:
  "eliminated (outcome_state (run_calls [Log (Some (Card 1 WEAPON))] LogBook_init))
     (Card 1 WEAPON) \<and>
   Card 1 WEAPON
     \<in> set (get (outcome_state (run_calls [Log (Some (Card 1 WEAPON))] LogBook_init)) WEAPON True) \<and>
   distinct (map fst (LogBook.log_book LogBook_init)) \<and>
   eliminated
     (outcome_state
        (run_calls
           ([Log (Some (Card 1 WEAPON))] @
            [Found_solution \<lparr>weapon = Some (Card 1 WEAPON), character = Some (Card 1 CHARACTER),
                             room = Some (Card 1 ROOM)\<rparr>,
             Log (Some (Card 2 WEAPON))])
           LogBook_init))
     (Card 1 WEAPON) \<and>
   Card 1 WEAPON
     \<in> set (get (outcome_state
                  (run_calls
                     ([Log (Some (Card 1 WEAPON))] @
                      [Found_solution
                         \<lparr>weapon = Some (Card 1 WEAPON), character = Some (Card 1 CHARACTER),
                          room = Some (Card 1 ROOM)\<rparr>,
                       Log (Some (Card 2 WEAPON))])
                     LogBook_init))
             WEAPON True) \<and>
   Card 1 WEAPON
     \<notin> set (get (outcome_state
                  (run_calls
                     ([Log (Some (Card 1 WEAPON))] @
                      [Found_solution
                         \<lparr>weapon = Some (Card 1 WEAPON), character = Some (Card 1 CHARACTER),
                          room = Some (Card 1 ROOM)\<rparr>,
                       Log (Some (Card 2 WEAPON))])
                     LogBook_init))
             WEAPON False)"
proof -
  have h1: "eliminated (outcome_state (run_calls [Log (Some (Card 1 WEAPON))] LogBook_init))
     (Card 1 WEAPON)"
    by code_simp
  have h2: "Card 1 WEAPON
     \<in> set (get (outcome_state (run_calls [Log (Some (Card 1 WEAPON))] LogBook_init)) WEAPON True)"
    by code_simp
  have h3: "distinct (map fst (LogBook.log_book LogBook_init))"
    by code_simp
  from h1 h2 h3
    eliminated_monotone [of "[Log (Some (Card 1 WEAPON))]" LogBook_init "Card 1 WEAPON"
      "[Found_solution \<lparr>weapon = Some (Card 1 WEAPON), character = Some (Card 1 CHARACTER),
                        room = Some (Card 1 ROOM)\<rparr>,
        Log (Some (Card 2 WEAPON))]" WEAPON]
  show ?thesis by blast
qed

section \<open>LogBook: \<^verbatim>\<open>found_solution\<close>\<close>

lemma found_solution_character_adopts:
  assumes "Solution.character (LogBook.solution lb) = None"
    and "dict_lookup (LogBook.log_book lb) ch = Some False"
    and "Solution.character cand = Some ch"
    and "1 \<le> card_value ch" and "card_value ch \<le> 6"
  shows "found_solution_character cand lb =
           Done (lb\<lparr>LogBook.solution := (LogBook.solution lb)\<lparr>Solution.character := Some ch\<rparr>,
                    LogBook.characters := (replicate 6 1)[nat (card_value ch - 1) := 0]\<rparr>)"
  using assms
  by (simp add: found_solution_character_def dict_getitem_def np_setitem_in_range)

lemma found_solution_weapon_adopts:
  assumes "Solution.weapon (LogBook.solution lb) = None"
    and "dict_lookup (LogBook.log_book lb) w = Some False"
    and "Solution.weapon cand = Some w"
    and "Solution.character cand = Some ch"
    and "1 \<le> card_value ch" and "card_value ch \<le> 6"
  shows "found_solution_weapon cand lb =
           Done (lb\<lparr>LogBook.solution := (LogBook.solution lb)\<lparr>Solution.weapon := Some w\<rparr>,
                    LogBook.weapons := (replicate 6 1)[nat (card_value ch - 1) := 0]\<rparr>)"
  using assms
  by (simp add: found_solution_weapon_def dict_getitem_def np_setitem_in_range)

lemma found_solution_room_adopts:
  assumes "Solution.room (LogBook.solution lb) = None"
    and "dict_lookup (LogBook.log_book lb) r = Some False"
    and "Solution.room cand = Some r"
    and "Solution.character cand = Some ch"
    and "1 \<le> card_value ch" and "card_value ch \<le> 6"
  shows "found_solution_room cand lb =
           Done (lb\<lparr>LogBook.solution := (LogBook.solution lb)\<lparr>Solution.room := Some r\<rparr>,
                    LogBook.rooms := (replicate 6 1)[nat (card_value ch - 1) := 0]\<rparr>)"
  using assms
  by (simp add: found_solution_room_def dict_getitem_def np_setitem_in_range)

text \<open>
  Claim C1, as amended. For every LogBook whose three Solution slots are all unset
  and every complete candidate whose three cards the LogBook records as not
  eliminated, the candidate's character being one of the six characters,
  \<^verbatim>\<open>found_solution(candidate)\<close> returns normally and leaves a complete deduced
  Solution equal to the candidate.
\<close>

theorem found_solution_adopts:
  assumes unset: "LogBook.solution lb = \<lparr>weapon = None, character = None, room = None\<rparr>"
    and cand: "cand = \<lparr>weapon = Some w, character = Some ch, room = Some r\<rparr>"
    and w: "dict_lookup (LogBook.log_book lb) w = Some False"
    and ch: "dict_lookup (LogBook.log_book lb) ch = Some False"
    and r: "dict_lookup (LogBook.log_book lb) r = Some False"
    and range: "1 \<le> card_value ch" "card_value ch \<le> 6"
  shows "\<exists>lb'. found_solution cand lb = Done lb' \<and> LogBook.solution lb' = cand \<and>
               is_complete (LogBook.solution lb')"
proof -
  define lb1 where
    "lb1 = lb\<lparr>LogBook.solution := (LogBook.solution lb)\<lparr>Solution.character := Some ch\<rparr>,
              LogBook.characters := (replicate 6 1)[nat (card_value ch - 1) := 0]\<rparr>"
  define lb2 where
    "lb2 = lb1\<lparr>LogBook.solution := (LogBook.solution lb1)\<lparr>Solution.weapon := Some w\<rparr>,
               LogBook.weapons := (replicate 6 1)[nat (card_value ch - 1) := 0]\<rparr>"
  define lb3 where
    "lb3 = lb2\<lparr>LogBook.solution := (LogBook.solution lb2)\<lparr>Solution.room := Some r\<rparr>,
               LogBook.rooms := (replicate 6 1)[nat (card_value ch - 1) := 0]\<rparr>"
  have 1: "found_solution_character cand lb = Done lb1"
    unfolding lb1_def
    by (rule found_solution_character_adopts) (simp_all add: unset cand ch range)
  have 2: "found_solution_weapon cand lb1 = Done lb2"
    unfolding lb2_def
    by (rule found_solution_weapon_adopts [where ch = ch])
       (simp_all add: lb1_def unset cand w range)
  have 3: "found_solution_room cand lb2 = Done lb3"
    unfolding lb3_def
    by (rule found_solution_room_adopts [where ch = ch])
       (simp_all add: lb2_def lb1_def unset cand r range)
  have "found_solution cand lb = Done lb3"
    by (simp add: found_solution_def 1 2 3)
  moreover have "LogBook.solution lb3 = cand"
    by (simp add: lb3_def lb2_def lb1_def unset cand)
  moreover have "is_complete cand"
    by (simp add: cand is_complete_def)
  ultimately show ?thesis by auto
qed

theorem found_solution_adopts_witness:
  "LogBook.solution LogBook_init = \<lparr>weapon = None, character = None, room = None\<rparr> \<and>
   dict_lookup (LogBook.log_book LogBook_init) (Card 2 WEAPON) = Some False \<and>
   dict_lookup (LogBook.log_book LogBook_init) (Card 3 CHARACTER) = Some False \<and>
   dict_lookup (LogBook.log_book LogBook_init) (Card 9 ROOM) = Some False \<and>
   1 \<le> card_value (Card 3 CHARACTER) \<and> card_value (Card 3 CHARACTER) \<le> 6 \<and>
   (\<exists>lb'. found_solution
            \<lparr>weapon = Some (Card 2 WEAPON), character = Some (Card 3 CHARACTER),
             room = Some (Card 9 ROOM)\<rparr> LogBook_init = Done lb' \<and>
          LogBook.solution lb' =
            \<lparr>weapon = Some (Card 2 WEAPON), character = Some (Card 3 CHARACTER),
             room = Some (Card 9 ROOM)\<rparr> \<and>
          is_complete (LogBook.solution lb'))"
proof -
  have unset: "LogBook.solution LogBook_init = \<lparr>weapon = None, character = None, room = None\<rparr>"
    by (simp add: LogBook_init_def)
  have w: "dict_lookup (LogBook.log_book LogBook_init) (Card 2 WEAPON) = Some False"
    by code_simp
  have ch: "dict_lookup (LogBook.log_book LogBook_init) (Card 3 CHARACTER) = Some False"
    by code_simp
  have r: "dict_lookup (LogBook.log_book LogBook_init) (Card 9 ROOM) = Some False"
    by code_simp
  have range: "1 \<le> card_value (Card 3 CHARACTER)" "card_value (Card 3 CHARACTER) \<le> 6"
    by simp_all
  from found_solution_adopts [OF unset refl w ch r range] unset w ch r range
  show ?thesis by blast
qed

theorem found_solution_counterexample:
  "LogBook.solution (outcome_state (log (Some (Card 1 CHARACTER)) LogBook_init)) =
     \<lparr>weapon = None, character = None, room = None\<rparr> \<and>
   LogBook.solution
     (outcome_state
        (found_solution
           \<lparr>weapon = Some (Card 1 WEAPON), character = Some (Card 1 CHARACTER),
            room = Some (Card 1 ROOM)\<rparr>
           (outcome_state (log (Some (Card 1 CHARACTER)) LogBook_init)))) =
     \<lparr>weapon = Some (Card 1 WEAPON), character = None, room = Some (Card 1 ROOM)\<rparr> \<and>
   get (outcome_state
          (found_solution
             \<lparr>weapon = Some (Card 1 WEAPON), character = Some (Card 1 CHARACTER),
              room = Some (Card 1 ROOM)\<rparr>
             (outcome_state (log (Some (Card 1 CHARACTER)) LogBook_init))))
       WEAPON True = []"
  by code_simp

section \<open>LogBook: deduction by elimination\<close>

lemma singleton_list: "length xs = 1 \<Longrightarrow> set xs \<subseteq> {xs ! 0}"
  by (cases xs) auto

lemma logged_preserves_inv:
  assumes "deduction_inv lb"
  shows "deduction_inv (logged c lb)"
  unfolding deduction_inv_def
proof
  fix K
  define lb1 where "lb1 = lb\<lparr>LogBook.log_book := dict_set (LogBook.log_book lb) c True\<rparr>"
  have sol1: "LogBook.solution lb1 = LogBook.solution lb" by (simp add: lb1_def)
  have old: "case slot K (LogBook.solution lb) of
               None \<Rightarrow> length (get lb K False) \<noteq> 1
             | Some x \<Rightarrow> set (get lb K False) \<subseteq> {x}"
    using assms by (simp add: deduction_inv_def)
  show "case slot K (LogBook.solution (logged c lb)) of
          None \<Rightarrow> length (get (logged c lb) K False) \<noteq> 1
        | Some x \<Rightarrow> set (get (logged c lb) K False) \<subseteq> {x}"
  proof (cases "K = card_type c")
    case False
    then have "get (logged c lb) K False = get lb K False"
      by (simp add: logged_def get_dict_set_other)
    moreover from False have "slot K (LogBook.solution (logged c lb)) = slot K (LogBook.solution lb)"
      by (simp add: logged_def slot_find_solution_other)
    ultimately show ?thesis using old by (simp split: option.splits)
  next
    case True
    have g: "get (logged c lb) K False = get lb1 K False"
      by (simp add: logged_def lb1_def)
    have sub: "set (get lb1 K False) \<subseteq> set (get lb K False)"
      unfolding lb1_def by (rule get_False_dict_set_True)
    have s: "slot K (LogBook.solution (logged c lb)) =
               (case slot K (LogBook.solution lb) of
                  Some x \<Rightarrow> Some x
                | None \<Rightarrow> if length (get lb1 K False) = 1 then Some (get lb1 K False ! 0) else None)"
      using slot_find_solution_same [of K lb1] True sol1 by (simp add: logged_def lb1_def)
    show ?thesis
    proof (cases "slot K (LogBook.solution lb)")
      case (Some x)
      with old sub s g show ?thesis by auto
    next
      case None
      with s g singleton_list [of "get lb1 K False"] show ?thesis by auto
    qed
  qed
qed

lemma outcome_state_log_cases:
  "outcome_state (log (Some c) lb) = logged c lb \<or>
   (\<exists>a. outcome_state (log (Some c) lb) = (logged c lb)\<lparr>LogBook.weapons := a\<rparr>) \<or>
   (\<exists>a. outcome_state (log (Some c) lb) = (logged c lb)\<lparr>LogBook.characters := a\<rparr>) \<or>
   (\<exists>a. outcome_state (log (Some c) lb) = (logged c lb)\<lparr>LogBook.rooms := a\<rparr>)"
  by (cases "card_type c") (auto simp add: log_Some split: sum.split)

lemma deduction_inv_array_update:
  "deduction_inv (lb\<lparr>LogBook.weapons := a\<rparr>) = deduction_inv lb"
  "deduction_inv (lb\<lparr>LogBook.characters := a\<rparr>) = deduction_inv lb"
  "deduction_inv (lb\<lparr>LogBook.rooms := a\<rparr>) = deduction_inv lb"
  by (simp_all add: deduction_inv_def cong: option.case_cong)

lemma log_preserves_inv:
  "deduction_inv lb \<Longrightarrow> deduction_inv (outcome_state (log c_opt lb))"
proof (cases c_opt)
  case None
  then show "deduction_inv lb \<Longrightarrow> ?thesis" by (simp add: log_def)
next
  case (Some c)
  assume "deduction_inv lb"
  then have "deduction_inv (logged c lb)" by (rule logged_preserves_inv)
  with outcome_state_log_cases [of c lb] Some show ?thesis
    by (auto simp add: deduction_inv_array_update)
qed

lemma init_inv: "deduction_inv LogBook_init"
proof -
  have "length (get LogBook_init K False) \<noteq> 1" for K
    by (cases K) (simp_all add: get_def LogBook_init_def static_deck_def)
  moreover have "slot K (LogBook.solution LogBook_init) = None" for K
    by (cases K) (simp_all add: LogBook_init_def)
  ultimately show ?thesis by (simp add: deduction_inv_def)
qed

lemma inv_deduced:
  "deduction_inv lb \<Longrightarrow> get lb K False = [x] \<Longrightarrow> slot K (LogBook.solution lb) = Some x"
  unfolding deduction_inv_def
  by (drule spec [of _ K]) (auto split: option.splits)

lemma log_run_inv:
  "deduction_inv lb \<Longrightarrow> deduction_inv (outcome_state (run_calls (map Log cs) lb))"
proof (induction cs arbitrary: lb)
  case Nil
  then show ?case by simp
next
  case (Cons c cs)
  from Cons.prems have s: "deduction_inv (outcome_state (log c lb))" by (rule log_preserves_inv)
  show ?case
  proof (cases "log c lb")
    case (Done lb')
    with s Cons.IH [of lb'] show ?thesis by simp
  next
    case (Raised e lb')
    with s show ?thesis by simp
  qed
qed

text \<open>
  On a fresh LogBook that receives \<^verbatim>\<open>log\<close> calls only, the deduction holds: whenever
  exactly one card of a category is left, the slot of that category holds it.
\<close>

lemma log_only_deduction:
  "get (outcome_state (run_calls (map Log cs) LogBook_init)) K False = [x] \<Longrightarrow>
     slot K (LogBook.solution (outcome_state (run_calls (map Log cs) LogBook_init))) = Some x"
  by (rule inv_deduced [OF log_run_inv [OF init_inv]])

text \<open>A slot that is set is never cleared or overwritten, by any call.\<close>

lemma slot_kept_find_solution:
  "slot K (LogBook.solution lb) = Some x \<Longrightarrow>
     slot K (LogBook.solution (find_solution K' lb)) = Some x"
  by (cases "K = K'") (simp_all add: slot_find_solution_same slot_find_solution_other)

lemma slot_kept_log:
  "slot K (LogBook.solution lb) = Some x \<Longrightarrow>
     slot K (LogBook.solution (outcome_state (log c_opt lb))) = Some x"
proof (cases c_opt)
  case None
  then show "slot K (LogBook.solution lb) = Some x \<Longrightarrow> ?thesis" by (simp add: log_def)
next
  case (Some c)
  assume "slot K (LogBook.solution lb) = Some x"
  then have "slot K (LogBook.solution (logged c lb)) = Some x"
    unfolding logged_def by (intro slot_kept_find_solution) simp
  with Some show ?thesis by (simp add: solution_log)
qed

lemma slot_kept_found_solution_character:
  "slot K (LogBook.solution lb) = Some x \<Longrightarrow>
     slot K (LogBook.solution (outcome_state (found_solution_character cand lb))) = Some x"
  by (cases K)
     (auto simp add: found_solution_character_def Let_def
           split: sum.split bool.split option.split)

lemma slot_kept_found_solution_weapon:
  "slot K (LogBook.solution lb) = Some x \<Longrightarrow>
     slot K (LogBook.solution (outcome_state (found_solution_weapon cand lb))) = Some x"
  by (cases K)
     (auto simp add: found_solution_weapon_def Let_def
           split: sum.split bool.split option.split)

lemma slot_kept_found_solution_room:
  "slot K (LogBook.solution lb) = Some x \<Longrightarrow>
     slot K (LogBook.solution (outcome_state (found_solution_room cand lb))) = Some x"
  by (cases K)
     (auto simp add: found_solution_room_def Let_def
           split: sum.split bool.split option.split)

lemma slot_kept_found_solution:
  assumes "slot K (LogBook.solution lb) = Some x"
  shows "slot K (LogBook.solution (outcome_state (found_solution cand lb))) = Some x"
proof -
  have w: "slot K (LogBook.solution (outcome_state o1)) = Some x \<Longrightarrow>
           slot K (LogBook.solution (outcome_state (and_then o1 (found_solution_weapon cand))))
             = Some x" for o1
    by (cases o1) (simp_all add: slot_kept_found_solution_weapon)
  have r: "slot K (LogBook.solution (outcome_state o2)) = Some x \<Longrightarrow>
           slot K (LogBook.solution (outcome_state (and_then o2 (found_solution_room cand))))
             = Some x" for o2
    by (cases o2) (simp_all add: slot_kept_found_solution_room)
  show ?thesis
    unfolding found_solution_def
    by (intro r w slot_kept_found_solution_character assms)
qed

lemma slot_kept_run:
  "slot K (LogBook.solution lb) = Some x \<Longrightarrow>
     slot K (LogBook.solution (outcome_state (run_calls xs lb))) = Some x"
proof (rule run_calls_induct_state [where P = "\<lambda>s. slot K (LogBook.solution s) = Some x"])
  fix y and s :: LogBook
  assume "slot K (LogBook.solution s) = Some x"
  then show "slot K (LogBook.solution (outcome_state (call y s))) = Some x"
    by (cases y) (simp_all add: slot_kept_log slot_kept_found_solution)
qed

text \<open>
  Claim C2, on the run where the code departs from it. \<^verbatim>\<open>found_solution\<close> adopts the
  candidate weapon, card 1, without eliminating any other weapon in the dictionary;
  five \<^verbatim>\<open>log\<close> calls then eliminate the weapons 1 to 5. The run returns normally,
  the last call leaves exactly one weapon, card 6, not eliminated (there were two
  before it), and the weapon slot still holds card 1.
\<close>

theorem found_solution_then_log_run:
  "run_calls
     [Found_solution \<lparr>weapon = Some (Card 1 WEAPON), character = Some (Card 1 CHARACTER),
                      room = Some (Card 1 ROOM)\<rparr>,
      Log (Some (Card 1 WEAPON)), Log (Some (Card 2 WEAPON)), Log (Some (Card 3 WEAPON)),
      Log (Some (Card 4 WEAPON)), Log (Some (Card 5 WEAPON))] LogBook_init =
   Done (outcome_state
     (run_calls
        [Found_solution \<lparr>weapon = Some (Card 1 WEAPON), character = Some (Card 1 CHARACTER),
                         room = Some (Card 1 ROOM)\<rparr>,
         Log (Some (Card 1 WEAPON)), Log (Some (Card 2 WEAPON)), Log (Some (Card 3 WEAPON)),
         Log (Some (Card 4 WEAPON)), Log (Some (Card 5 WEAPON))] LogBook_init)) \<and>
   get (outcome_state
     (run_calls
        [Found_solution \<lparr>weapon = Some (Card 1 WEAPON), character = Some (Card 1 CHARACTER),
                         room = Some (Card 1 ROOM)\<rparr>,
         Log (Some (Card 1 WEAPON)), Log (Some (Card 2 WEAPON)), Log (Some (Card 3 WEAPON)),
         Log (Some (Card 4 WEAPON))] LogBook_init)) WEAPON False =
     [Card 5 WEAPON, Card 6 WEAPON] \<and>
   get (outcome_state
     (run_calls
        [Found_solution \<lparr>weapon = Some (Card 1 WEAPON), character = Some (Card 1 CHARACTER),
                         room = Some (Card 1 ROOM)\<rparr>,
         Log (Some (Card 1 WEAPON)), Log (Some (Card 2 WEAPON)), Log (Some (Card 3 WEAPON)),
         Log (Some (Card 4 WEAPON)), Log (Some (Card 5 WEAPON))] LogBook_init)) WEAPON False =
     [Card 6 WEAPON] \<and>
   Solution.weapon (LogBook.solution (outcome_state
     (run_calls
        [Found_solution \<lparr>weapon = Some (Card 1 WEAPON), character = Some (Card 1 CHARACTER),
                         room = Some (Card 1 ROOM)\<rparr>,
         Log (Some (Card 1 WEAPON)), Log (Some (Card 2 WEAPON)), Log (Some (Card 3 WEAPON)),
         Log (Some (Card 4 WEAPON)), Log (Some (Card 5 WEAPON))] LogBook_init))) =
     Some (Card 1 WEAPON)"
  by code_simp

section \<open>Player: choosing the action\<close>

text \<open>
  Claim C4. For every player state and whatever the room or position,
  \<^verbatim>\<open>next_turn_action\<close> returns \<^verbatim>\<open>ACCUSATION\<close> if and only if \<^verbatim>\<open>has_solution()\<close>
  is true. Otherwise it returns \<^verbatim>\<open>MOVE\<close> when the player is in no room (without
  asking \<^verbatim>\<open>should_guess_current_room\<close>) or when \<^verbatim>\<open>should_guess_current_room()\<close>
  is false, and \<^verbatim>\<open>GUESS\<close> when the player is in a room and
  \<^verbatim>\<open>should_guess_current_room()\<close> is true. This holds for every implementation of
  \<^verbatim>\<open>should_guess_current_room\<close>, the ComputerPlayer's among them.
\<close>

theorem next_turn_action_rule:
  "(next_turn_action should_guess p = Inr ACCUSATION \<longleftrightarrow> has_solution (Player.log_book p)) \<and>
   (\<not> has_solution (Player.log_book p) \<and> Player.room p = None \<longrightarrow>
      next_turn_action should_guess p = Inr MOVE) \<and>
   (\<not> has_solution (Player.log_book p) \<and> Player.room p \<noteq> None \<and> should_guess p = Inr False \<longrightarrow>
      next_turn_action should_guess p = Inr MOVE) \<and>
   (\<not> has_solution (Player.log_book p) \<and> Player.room p \<noteq> None \<and> should_guess p = Inr True \<longrightarrow>
      next_turn_action should_guess p = Inr GUESS)"
  by (auto simp add: next_turn_action_def split: sum.splits)

theorem next_turn_action_rule_witness:
  "\<not> has_solution (Player.log_book ComputerPlayer_new) \<and>
   Player.room ComputerPlayer_new = None \<and>
   next_turn_action should_guess_current_room ComputerPlayer_new = Inr MOVE \<and>
   \<not> has_solution (Player.log_book (ComputerPlayer_new\<lparr>Player.room := Some 3\<rparr>)) \<and>
   Player.room (ComputerPlayer_new\<lparr>Player.room := Some 3\<rparr>) \<noteq> None \<and>
   should_guess_current_room (ComputerPlayer_new\<lparr>Player.room := Some 3\<rparr>) = Inr True \<and>
   next_turn_action should_guess_current_room (ComputerPlayer_new\<lparr>Player.room := Some 3\<rparr>)
     = Inr GUESS \<and>
   has_solution
     (Player.log_book
        (ComputerPlayer_new
           \<lparr>Player.log_book :=
              LogBook_init
                \<lparr>LogBook.solution :=
                   \<lparr>weapon = Some (Card 2 WEAPON), character = Some (Card 3 CHARACTER),
                    room = Some (Card 9 ROOM)\<rparr>\<rparr>\<rparr>)) \<and>
   next_turn_action should_guess_current_room
     (ComputerPlayer_new
        \<lparr>Player.log_book :=
           LogBook_init
             \<lparr>LogBook.solution :=
                \<lparr>weapon = Some (Card 2 WEAPON), character = Some (Card 3 CHARACTER),
                 room = Some (Card 9 ROOM)\<rparr>\<rparr>\<rparr>) = Inr ACCUSATION \<and>
   \<not> has_solution
       (Player.log_book
          (ComputerPlayer_new
             \<lparr>Player.log_book := outcome_state (log (Some (Card 3 ROOM)) LogBook_init),
              Player.room := Some 3\<rparr>)) \<and>
   should_guess_current_room
     (ComputerPlayer_new
        \<lparr>Player.log_book := outcome_state (log (Some (Card 3 ROOM)) LogBook_init),
         Player.room := Some 3\<rparr>) = Inr False \<and>
   next_turn_action should_guess_current_room
     (ComputerPlayer_new
        \<lparr>Player.log_book := outcome_state (log (Some (Card 3 ROOM)) LogBook_init),
         Player.room := Some 3\<rparr>) = Inr MOVE"
proof -
  have a: "\<not> has_solution (Player.log_book ComputerPlayer_new)"
    "Player.room ComputerPlayer_new = None"
    by (simp_all add: ComputerPlayer_new_def has_solution_def is_complete_def LogBook_init_def)
  have b: "\<not> has_solution (Player.log_book (ComputerPlayer_new\<lparr>Player.room := Some 3\<rparr>))"
    "Player.room (ComputerPlayer_new\<lparr>Player.room := Some 3\<rparr>) \<noteq> None"
    by (simp_all add: ComputerPlayer_new_def has_solution_def is_complete_def LogBook_init_def)
  have c: "should_guess_current_room (ComputerPlayer_new\<lparr>Player.room := Some 3\<rparr>) = Inr True"
    by code_simp
  have d: "has_solution
     (Player.log_book
        (ComputerPlayer_new
           \<lparr>Player.log_book :=
              LogBook_init
                \<lparr>LogBook.solution :=
                   \<lparr>weapon = Some (Card 2 WEAPON), character = Some (Card 3 CHARACTER),
                    room = Some (Card 9 ROOM)\<rparr>\<rparr>\<rparr>))"
    by (simp add: has_solution_def is_complete_def)
  have e: "\<not> has_solution
       (Player.log_book
          (ComputerPlayer_new
             \<lparr>Player.log_book := outcome_state (log (Some (Card 3 ROOM)) LogBook_init),
              Player.room := Some 3\<rparr>))"
    "Player.room
       (ComputerPlayer_new
          \<lparr>Player.log_book := outcome_state (log (Some (Card 3 ROOM)) LogBook_init),
           Player.room := Some 3\<rparr>) \<noteq> None"
    "should_guess_current_room
       (ComputerPlayer_new
          \<lparr>Player.log_book := outcome_state (log (Some (Card 3 ROOM)) LogBook_init),
           Player.room := Some 3\<rparr>) = Inr False"
    by code_simp+
  from a b c d e
    next_turn_action_rule [of should_guess_current_room
      "ComputerPlayer_new
         \<lparr>Player.log_book := outcome_state (log (Some (Card 3 ROOM)) LogBook_init),
          Player.room := Some 3\<rparr>"]
    next_turn_action_rule [of should_guess_current_room ComputerPlayer_new]
    next_turn_action_rule [of should_guess_current_room
      "ComputerPlayer_new\<lparr>Player.room := Some 3\<rparr>"]
    next_turn_action_rule [of should_guess_current_room
      "ComputerPlayer_new
        \<lparr>Player.log_book :=
           LogBook_init
             \<lparr>LogBook.solution :=
                \<lparr>weapon = Some (Card 2 WEAPON), character = Some (Card 3 CHARACTER),
                 room = Some (Card 9 ROOM)\<rparr>\<rparr>\<rparr>"]
  show ?thesis by blast
qed

section \<open>Player: moving along a path\<close>

lemma walk_recognized:
  "Unrecognized \<notin> set ps \<Longrightarrow>
     walk enter ps p =
       Done (foldl (\<lambda>s st. case st of
                      Space r c \<Rightarrow> s\<lparr>Player.room := None, Player.position := Some (r, c)\<rparr>
                    | RoomPosition m \<Rightarrow> enter m s
                    | Unrecognized \<Rightarrow> s) p ps)"
proof (induction ps arbitrary: p)
  case Nil
  then show ?case by simp
next
  case (Cons st ps)
  then show ?case by (cases st) simp_all
qed

lemma walk_unrecognized:
  "Unrecognized \<notin> set pre \<Longrightarrow>
     walk enter (pre @ Unrecognized # post) p =
       Raised NameError
         (foldl (\<lambda>s st. case st of
                      Space r c \<Rightarrow> s\<lparr>Player.room := None, Player.position := Some (r, c)\<rparr>
                    | RoomPosition m \<Rightarrow> enter m s
                    | Unrecognized \<Rightarrow> s) p pre)"
proof (induction pre arbitrary: p)
  case Nil
  then show ?case by simp
next
  case (Cons st pre)
  then show ?case by (cases st) simp_all
qed

lemma walk_not_exception: "walk enter ps p \<noteq> Raised (Exception msg) s"
proof (induction ps arbitrary: p)
  case Nil
  then show ?case by simp
next
  case (Cons st ps)
  then show ?case by (cases st) simp_all
qed

text \<open>
  Claim C5. \<^verbatim>\<open>move_path(roll, room_path)\<close> raises its error "Path is longer than
  roll" if and only if the path's distance exceeds the roll, and then the player is
  exactly as before the call. When the distance is at most the roll it walks the
  steps in order: a free-space step sets the coordinate and clears the room, a
  room-entry step calls \<^verbatim>\<open>enter_room\<close>, which sets the room and clears the
  coordinate; a path of such steps ends normally in the state so reached. The first
  step of any other kind ends the call with a fatal error (the \<^verbatim>\<open>NameError\<close> of the
  last branch), the steps before it having been taken.
\<close>

theorem move_path_contract:
  "(move_path enter roll rp p = Raised (Exception ''Path is longer than roll'') s
      \<longleftrightarrow> roll < distance rp \<and> s = p) \<and>
   (distance rp \<le> roll \<and> Unrecognized \<notin> set (RoomPath.path rp) \<longrightarrow>
      move_path enter roll rp p =
        Done (foldl (\<lambda>s st. case st of
                       Space r c \<Rightarrow> s\<lparr>Player.room := None, Player.position := Some (r, c)\<rparr>
                     | RoomPosition m \<Rightarrow> enter m s
                     | Unrecognized \<Rightarrow> s) p (RoomPath.path rp))) \<and>
   (distance rp \<le> roll \<and> RoomPath.path rp = pre @ Unrecognized # post \<and>
    Unrecognized \<notin> set pre \<longrightarrow>
      move_path enter roll rp p =
        Raised NameError
          (foldl (\<lambda>s st. case st of
                       Space r c \<Rightarrow> s\<lparr>Player.room := None, Player.position := Some (r, c)\<rparr>
                     | RoomPosition m \<Rightarrow> enter m s
                     | Unrecognized \<Rightarrow> s) p pre)) \<and>
   Player.room (Player_enter_room m q) = Some m \<and>
   Player.position (Player_enter_room m q) = None \<and>
   Player.room (ComputerPlayer_enter_room m q') = Some m \<and>
   Player.position (ComputerPlayer_enter_room m q') = None"
proof -
  have "move_path enter roll rp p = Raised (Exception ''Path is longer than roll'') s
          \<longleftrightarrow> roll < distance rp \<and> s = p"
    by (auto simp add: move_path_def walk_not_exception)
  moreover have "distance rp \<le> roll \<Longrightarrow> move_path enter roll rp p = walk enter (RoomPath.path rp) p"
    by (simp add: move_path_def)
  ultimately show ?thesis
    by (simp add: walk_recognized walk_unrecognized Player_enter_room_def
        ComputerPlayer_enter_room_def)
qed

theorem move_path_contract_witness:
  "(3::int) < distance \<lparr>RoomPath.room = 2, path = [Space 1 1, Space 1 2, Space 1 3, RoomPosition 2]\<rparr> \<and>
   move_path ComputerPlayer_enter_room 3
     \<lparr>RoomPath.room = 2, path = [Space 1 1, Space 1 2, Space 1 3, RoomPosition 2]\<rparr>
     ComputerPlayer_new =
     Raised (Exception ''Path is longer than roll'') ComputerPlayer_new \<and>
   distance \<lparr>RoomPath.room = 2, path = [Space 1 1, Space 1 2, Space 1 3, RoomPosition 2]\<rparr> \<le> 4 \<and>
   Unrecognized \<notin> set [Space 1 1, Space 1 2, Space 1 3, RoomPosition 2] \<and>
   move_path ComputerPlayer_enter_room 4
     \<lparr>RoomPath.room = 2, path = [Space 1 1, Space 1 2, Space 1 3, RoomPosition 2]\<rparr>
     ComputerPlayer_new =
     Done (ComputerPlayer_new\<lparr>Player.room := Some 2, Player.position := None\<rparr>) \<and>
   distance \<lparr>RoomPath.room = 2, path = [Space 1 1] @ Unrecognized # [RoomPosition 2]\<rparr> \<le> 4 \<and>
   Unrecognized \<notin> set [Space 1 1] \<and>
   move_path ComputerPlayer_enter_room 4
     \<lparr>RoomPath.room = 2, path = [Space 1 1] @ Unrecognized # [RoomPosition 2]\<rparr>
     ComputerPlayer_new =
     Raised NameError (ComputerPlayer_new\<lparr>Player.room := None, Player.position := Some (1, 1)\<rparr>)"
proof -
  have long: "(3::int) <
      distance \<lparr>RoomPath.room = 2, path = [Space 1 1, Space 1 2, Space 1 3, RoomPosition 2]\<rparr>"
    by (simp add: distance_def)
  have fits: "distance
      \<lparr>RoomPath.room = 2, path = [Space 1 1, Space 1 2, Space 1 3, RoomPosition 2]\<rparr> \<le> 4"
    "Unrecognized \<notin> set [Space 1 1, Space 1 2, Space 1 3, RoomPosition 2]"
    by (simp_all add: distance_def)
  have bad: "distance
      \<lparr>RoomPath.room = 2, path = [Space 1 1] @ Unrecognized # [RoomPosition 2]\<rparr> \<le> 4"
    "Unrecognized \<notin> set [Space 1 1]"
    by (simp_all add: distance_def)
  from long fits bad
    move_path_contract [where enter = ComputerPlayer_enter_room and roll = 3 and
      rp = "\<lparr>RoomPath.room = 2, path = [Space 1 1, Space 1 2, Space 1 3, RoomPosition 2]\<rparr>"
      and p = ComputerPlayer_new and s = ComputerPlayer_new]
    move_path_contract [where enter = ComputerPlayer_enter_room and roll = 4 and
      rp = "\<lparr>RoomPath.room = 2, path = [Space 1 1, Space 1 2, Space 1 3, RoomPosition 2]\<rparr>"
      and p = ComputerPlayer_new]
    move_path_contract [where enter = ComputerPlayer_enter_room and roll = 4 and
      rp = "\<lparr>RoomPath.room = 2, path = [Space 1 1] @ Unrecognized # [RoomPosition 2]\<rparr>"
      and pre = "[Space 1 1]" and post = "[RoomPosition 2]" and p = ComputerPlayer_new]
  show ?thesis
    by (simp add: ComputerPlayer_enter_room_def Player_enter_room_def ComputerPlayer_new_def)
qed

section \<open>ComputerPlayer: splitting a path over turns\<close>

lemma slice_nonneg:
  "0 \<le> k \<Longrightarrow> slice_to xs k = take (nat k) xs"
  "0 \<le> k \<Longrightarrow> slice_from xs k = drop (nat k) xs"
  by (simp_all add: slice_to_def slice_from_def)

text \<open>
  Claim C6. For a roll \<open>r\<close> of the dice (not negative): when the continued or the
  chosen path is longer than \<open>r\<close>, \<^verbatim>\<open>use_roll\<close> returns the path of exactly its
  first \<open>r\<close> steps with the same target room and keeps the remaining steps, with the
  same target room, as the remainder for the next turn; when its distance is at most
  \<open>r\<close>, \<^verbatim>\<open>use_roll\<close> returns the whole path and no remainder is left; and
  \<^verbatim>\<open>enter_room\<close> always clears the remainder.
\<close>

theorem use_roll_split:
  "(remaining_path p = Some rem \<and> 0 \<le> roll \<and> roll < distance rem \<longrightarrow>
      use_roll board rnd roll p =
        Inr (p\<lparr>remaining_path :=
                Some \<lparr>RoomPath.room = RoomPath.room rem,
                      path = drop (nat roll) (RoomPath.path rem)\<rparr>\<rparr>,
             \<lparr>RoomPath.room = RoomPath.room rem, path = take (nat roll) (RoomPath.path rem)\<rparr>) \<and>
      int (length (take (nat roll) (RoomPath.path rem))) = roll) \<and>
   (remaining_path p = Some rem \<and> distance rem \<le> roll \<longrightarrow>
      use_roll board rnd roll p = Inr (p\<lparr>remaining_path := None\<rparr>, rem)) \<and>
   (remaining_path p = None \<and> choose_path board rnd p = Inr chosen \<and>
    0 \<le> roll \<and> roll < distance chosen \<longrightarrow>
      use_roll board rnd roll p =
        Inr (p\<lparr>remaining_path :=
                Some \<lparr>RoomPath.room = RoomPath.room chosen,
                      path = drop (nat roll) (RoomPath.path chosen)\<rparr>\<rparr>,
             \<lparr>RoomPath.room = RoomPath.room chosen,
              path = take (nat roll) (RoomPath.path chosen)\<rparr>) \<and>
      int (length (take (nat roll) (RoomPath.path chosen))) = roll) \<and>
   (remaining_path p = None \<and> choose_path board rnd p = Inr chosen \<and>
    distance chosen \<le> roll \<longrightarrow>
      use_roll board rnd roll p = Inr (p, chosen)) \<and>
   remaining_path (ComputerPlayer_enter_room m q) = None"
  by (auto simp add: use_roll_def use_remaining_roll_def slice_nonneg distance_def
        ComputerPlayer_enter_room_def Let_def)

theorem use_roll_split_witness:
  "remaining_path
     (ComputerPlayer_new
        \<lparr>remaining_path :=
           Some \<lparr>RoomPath.room = 2,
                 path = [Space 1 1, Space 1 2, Space 1 3, Space 1 4, RoomPosition 2]\<rparr>\<rparr>) =
     Some \<lparr>RoomPath.room = 2,
           path = [Space 1 1, Space 1 2, Space 1 3, Space 1 4, RoomPosition 2]\<rparr> \<and>
   (0::int) \<le> 3 \<and>
   3 < distance \<lparr>RoomPath.room = 2,
                 path = [Space 1 1, Space 1 2, Space 1 3, Space 1 4, RoomPosition 2]\<rparr> \<and>
   use_roll \<lparr>room_paths_from_position =
               (\<lambda>r c targets.
                  [\<lparr>RoomPath.room = 2,
                    path = [Space 1 1, Space 1 2, Space 1 3, Space 1 4, RoomPosition 2]\<rparr>]),
             room_paths_from_room = (\<lambda>m targets. [])\<rparr> 0 3
     (ComputerPlayer_new
        \<lparr>remaining_path :=
           Some \<lparr>RoomPath.room = 2,
                 path = [Space 1 1, Space 1 2, Space 1 3, Space 1 4, RoomPosition 2]\<rparr>\<rparr>) =
     Inr (ComputerPlayer_new
            \<lparr>remaining_path :=
               Some \<lparr>RoomPath.room = 2, path = [Space 1 4, RoomPosition 2]\<rparr>\<rparr>,
          \<lparr>RoomPath.room = 2, path = [Space 1 1, Space 1 2, Space 1 3]\<rparr>) \<and>
   distance \<lparr>RoomPath.room = 2, path = [Space 1 4, RoomPosition 2]\<rparr> \<le> 2 \<and>
   use_roll \<lparr>room_paths_from_position =
               (\<lambda>r c targets.
                  [\<lparr>RoomPath.room = 2,
                    path = [Space 1 1, Space 1 2, Space 1 3, Space 1 4, RoomPosition 2]\<rparr>]),
             room_paths_from_room = (\<lambda>m targets. [])\<rparr> 0 2
     (ComputerPlayer_new
        \<lparr>remaining_path :=
           Some \<lparr>RoomPath.room = 2, path = [Space 1 4, RoomPosition 2]\<rparr>\<rparr>) =
     Inr (ComputerPlayer_new, \<lparr>RoomPath.room = 2, path = [Space 1 4, RoomPosition 2]\<rparr>) \<and>
   remaining_path (ComputerPlayer_new\<lparr>Player.position := Some (1, 0)\<rparr>) = None \<and>
   choose_path
     \<lparr>room_paths_from_position =
        (\<lambda>r c targets.
           [\<lparr>RoomPath.room = 2,
             path = [Space 1 1, Space 1 2, Space 1 3, Space 1 4, RoomPosition 2]\<rparr>]),
      room_paths_from_room = (\<lambda>m targets. [])\<rparr> 0
     (ComputerPlayer_new\<lparr>Player.position := Some (1, 0)\<rparr>) =
     Inr \<lparr>RoomPath.room = 2,
          path = [Space 1 1, Space 1 2, Space 1 3, Space 1 4, RoomPosition 2]\<rparr> \<and>
   use_roll
     \<lparr>room_paths_from_position =
        (\<lambda>r c targets.
           [\<lparr>RoomPath.room = 2,
             path = [Space 1 1, Space 1 2, Space 1 3, Space 1 4, RoomPosition 2]\<rparr>]),
      room_paths_from_room = (\<lambda>m targets. [])\<rparr> 0 3
     (ComputerPlayer_new\<lparr>Player.position := Some (1, 0)\<rparr>) =
     Inr (ComputerPlayer_new
            \<lparr>Player.position := Some (1, 0),
             remaining_path :=
               Some \<lparr>RoomPath.room = 2, path = [Space 1 4, RoomPosition 2]\<rparr>\<rparr>,
          \<lparr>RoomPath.room = 2, path = [Space 1 1, Space 1 2, Space 1 3]\<rparr>)"
proof -
  define five where
    "five = \<lparr>RoomPath.room = 2,
             path = [Space 1 1, Space 1 2, Space 1 3, Space 1 4, RoomPosition 2]\<rparr>"
  define two where "two = \<lparr>RoomPath.room = 2, path = [Space 1 4, RoomPosition 2]\<rparr>"
  define board where
    "board = \<lparr>room_paths_from_position = (\<lambda>(r::int) (c::int) (targets::Room list). [five]),
              room_paths_from_room = (\<lambda>(m::Room) (targets::Room list). [])\<rparr>"
  have rem: "remaining_path (ComputerPlayer_new\<lparr>remaining_path := Some five\<rparr>) = Some five"
    by simp
  have long: "3 < distance five"
    by (simp add: distance_def five_def)
  have rem2: "remaining_path (ComputerPlayer_new\<lparr>remaining_path := Some two\<rparr>) = Some two"
    by simp
  have short: "distance two \<le> 2"
    by (simp add: distance_def two_def)
  have three: "nat 3 = Suc (Suc (Suc 0))"
    by simp
  have first:
    "use_roll board 0 3 (ComputerPlayer_new\<lparr>remaining_path := Some five\<rparr>) =
       Inr (ComputerPlayer_new\<lparr>remaining_path := Some two\<rparr>,
            \<lparr>RoomPath.room = 2, path = [Space 1 1, Space 1 2, Space 1 3]\<rparr>)"
    using long
      use_roll_split [where roll = 3 and board = board and rnd = 0 and
        p = "ComputerPlayer_new\<lparr>remaining_path := Some five\<rparr>" and rem = five and
        chosen = five and m = 0 and q = ComputerPlayer_new]
    by (simp add: three five_def two_def)
  have second:
    "use_roll board 0 2 (ComputerPlayer_new\<lparr>remaining_path := Some two\<rparr>) =
       Inr (ComputerPlayer_new, two)"
    using short
      use_roll_split [where roll = 2 and board = board and rnd = 0 and
        p = "ComputerPlayer_new\<lparr>remaining_path := Some two\<rparr>" and rem = two and
        chosen = two and m = 0 and q = ComputerPlayer_new]
    by (simp add: ComputerPlayer_new_def)
  have none: "remaining_path (ComputerPlayer_new\<lparr>Player.position := Some (1, 0)\<rparr>) = None"
    by (simp add: ComputerPlayer_new_def)
  have chosen: "choose_path board 0 (ComputerPlayer_new\<lparr>Player.position := Some (1, 0)\<rparr>) =
                  Inr five"
    by (simp add: choose_path_def board_def random_choice_def ComputerPlayer_new_def)
  have third:
    "use_roll board 0 3 (ComputerPlayer_new\<lparr>Player.position := Some (1, 0)\<rparr>) =
       Inr (ComputerPlayer_new\<lparr>Player.position := Some (1, 0), remaining_path := Some two\<rparr>,
            \<lparr>RoomPath.room = 2, path = [Space 1 1, Space 1 2, Space 1 3]\<rparr>)"
    using long none chosen
      use_roll_split [where roll = 3 and board = board and rnd = 0 and
        p = "ComputerPlayer_new\<lparr>Player.position := Some (1, 0)\<rparr>" and rem = five and
        chosen = five and m = 0 and q = ComputerPlayer_new]
    by (simp add: three five_def two_def)
  from rem long short first second none chosen third show ?thesis
    unfolding five_def two_def board_def by simp
qed

end
